theory Spec2Isabelle
  imports Main
begin

section \<open>The canonical event record (types/events.ts)\<close>

datatype CalendarSource = MANCHESTER_UNITED | LEEDS_UNITED | LEGACY_CS2 | UFC

datatype CalendarOutcome = WIN | LOSS | DRAW

text \<open>
  An optional property of a TypeScript object type is an \<open>option\<close>: \<open>None\<close> stands for a
  key that is absent or holds \<open>undefined\<close> (the two are the same to every read in the code
  and to the JSON that leaves the server). \<open>CalendarEventWithMeta\<close> is the intersection
  of \<open>CalendarEvent\<close> with the five extended fields, here a record extension.
\<close>

record CalendarEvent =
  id' :: string
  source :: CalendarSource
  title :: string
  competition :: "string option"
  fighters :: "string option"
  startTimeUTC :: string
  result :: "string option"
  outcome :: "CalendarOutcome option"

record CalendarEventWithMeta = CalendarEvent +
  venue :: "string option"
  location :: "string option"
  status :: "string option"
  url :: "string option"
  subtitle :: "string option"

section \<open>The JavaScript runtime and the libraries the code calls\<close>

text \<open>
  A string is a list of code units; a \<open>char\<close> is a code unit below 256. A \<open>Date\<close> is its
  time value in milliseconds (\<open>None\<close> for an Invalid Date, whose \<open>getTime()\<close> is NaN).
  The parser behind \<open>new Date(string)\<close>, \<open>toISOString\<close>, and the \<open>date-fns\<close> functions
  \<open>subMonths\<close>, \<open>addMonths\<close> and \<open>format(_, "yyyyMMdd")\<close> are not code of this repository:
  they are the fields of a \<open>runtime\<close>, about which nothing is assumed, as is
  \<open>new URL(href, base).toString()\<close>, which throws a TypeError on an invalid URL. The reading of the
  system clock (\<open>new Date()\<close> without argument) is an explicit argument \<open>now\<close> of every
  function that takes one.
\<close>

datatype error = Error string | TypeError string | SyntaxError string | RangeError string

record runtime =
  parseDate :: "string \<Rightarrow> int option"
  toISOString :: "int \<Rightarrow> string"
  subMonths :: "int \<Rightarrow> nat \<Rightarrow> int option"
  addMonths :: "int \<Rightarrow> nat \<Rightarrow> int option"
  format_yyyyMMdd :: "int \<Rightarrow> string"
  newURL :: "string \<Rightarrow> string \<Rightarrow> error + string"

subsection \<open>Strings\<close>

definition is_digit :: "char \<Rightarrow> bool" where
  "is_digit c = (48 \<le> (of_char c :: nat) \<and> (of_char c :: nat) \<le> 57)"

text \<open>The class \<open>\s\<close> of a regular expression and the white space \<open>trim\<close> and
  \<open>parseInt\<close> strip, among the code units below 256: TAB, LF, VT, FF, CR, SP, NBSP.\<close>

definition is_space :: "char \<Rightarrow> bool" where
  "is_space c = (of_char c \<in> {9::nat, 10, 11, 12, 13, 32, 160})"

definition trim :: "string \<Rightarrow> string" where
  "trim s = rev (dropWhile is_space (rev (dropWhile is_space s)))"

text \<open>\<open>s.split(/\s+/)\<close>: the pieces between the maximal runs of white space; a run at
  either end leaves an empty piece there, and the empty string gives one empty piece.\<close>

fun split_go :: "string \<Rightarrow> bool \<Rightarrow> string \<Rightarrow> string list" where
  "split_go cur insep [] = [rev cur]"
| "split_go cur insep (c # cs) =
     (if is_space c then (if insep then split_go cur True cs else rev cur # split_go [] True cs)
      else split_go (c # cur) False cs)"

definition split_spaces :: "string \<Rightarrow> string list" where
  "split_spaces s = split_go [] False s"

text \<open>\<open>s.replace(/\s+/g, " ")\<close>: every maximal run of white space becomes one space.\<close>

fun collapse_spaces :: "bool \<Rightarrow> string \<Rightarrow> string" where
  "collapse_spaces insep [] = []"
| "collapse_spaces insep (c # cs) =
     (if is_space c then (if insep then collapse_spaces True cs else CHR '' '' # collapse_spaces True cs)
      else c # collapse_spaces False cs)"

definition startsWith :: "string \<Rightarrow> string \<Rightarrow> bool" where
  "startsWith s p = (take (length p) s = p)"

fun includes' :: "string \<Rightarrow> string \<Rightarrow> bool" where
  "includes' [] sub = (sub = [])"
| "includes' (c # cs) sub = (take (length sub) (c # cs) = sub \<or> includes' cs sub)"

fun join :: "string \<Rightarrow> string list \<Rightarrow> string" where
  "join sep [] = []"
| "join sep [x] = x"
| "join sep (x # y # ys) = x @ sep @ join sep (y # ys)"

definition digit_value :: "char \<Rightarrow> nat" where
  "digit_value c = of_char c - 48"

definition digits_value :: "string \<Rightarrow> int" where
  "digits_value ds = foldl (\<lambda>n c. 10 * n + int (digit_value c)) 0 ds"

text \<open>The integer \<open>Number.parseInt(s, 10)\<close> reads (\<open>mathInt\<close> in the language
  specification): leading white space, an optional sign, the longest run of decimal
  digits; \<open>None\<close> (the result is NaN) when there is no digit.\<close>

definition parseInt10 :: "string \<Rightarrow> int option" where
  "parseInt10 s =
     (let s1 = dropWhile is_space s;
          neg = (s1 \<noteq> [] \<and> hd s1 = CHR ''-'');
          s2 = (if s1 \<noteq> [] \<and> (hd s1 = CHR ''-'' \<or> hd s1 = CHR ''+'') then tl s1 else s1);
          ds = takeWhile is_digit s2
      in if ds = [] then None
         else Some (if neg then - digits_value ds else digits_value ds))"

text \<open>
  A JavaScript number that is an integer or infinite. \<open>toDouble\<close> is the conversion of an
  integer to the nearest IEEE 754 double, ties to the even significand: an integer of at
  most 53 bits is kept; of a longer one the 53 leading bits are kept and the rest is
  rounded, and a result of \<open>2^1024\<close> or more is an infinity. \<open>NumberParseInt\<close> is
  \<open>Number.parseInt(s, 10)\<close> as the engine computes it, the double of the integer read.
\<close>

datatype number = Finite int | PlusInfinity | MinusInfinity

function bitLength :: "int \<Rightarrow> nat" where
  "bitLength n = (if n \<le> 0 then 0 else Suc (bitLength (n div 2)))"
  by pat_completeness auto
termination
  by (relation "measure nat") auto

declare bitLength.simps [simp del]

definition toDouble :: "int \<Rightarrow> number" where
  "toDouble n =
     (let a = \<bar>n\<bar>; e = bitLength a
      in if e \<le> 53 then Finite n
         else (let ulp = 2 ^ (e - 53);
                   q = a div ulp;
                   r = a mod ulp;
                   m = (if 2 * r < ulp \<or> (2 * r = ulp \<and> even q) then q else q + 1) * ulp
               in if m \<ge> 2 ^ 1024 then (if n < 0 then MinusInfinity else PlusInfinity)
                  else Finite (if n < 0 then - m else m)))"

definition NumberParseInt :: "string \<Rightarrow> number option" where
  "NumberParseInt s = map_option toDouble (parseInt10 s)"

text \<open>\<open>x < y\<close> on such numbers.\<close>

fun lessNumber :: "number \<Rightarrow> number \<Rightarrow> bool" where
  "lessNumber (Finite x) (Finite y) = (x < y)"
| "lessNumber (Finite x) PlusInfinity = True"
| "lessNumber (Finite x) MinusInfinity = False"
| "lessNumber PlusInfinity y = False"
| "lessNumber MinusInfinity MinusInfinity = False"
| "lessNumber MinusInfinity y = True"

text \<open>\<open>value.match(/-?\d+/)\<close>: the leftmost match, a minus sign directly before a digit
  included, the digits taken greedily.\<close>

fun match_signed_digits :: "string \<Rightarrow> string option" where
  "match_signed_digits [] = None"
| "match_signed_digits (c # cs) =
     (if c = CHR ''-'' \<and> cs \<noteq> [] \<and> is_digit (hd cs) then Some (c # takeWhile is_digit cs)
      else if is_digit c then Some (takeWhile is_digit (c # cs))
      else match_signed_digits cs)"

subsection \<open>Time windows\<close>

definition DEFAULT_RANGE_MONTHS_AHEAD :: nat where "DEFAULT_RANGE_MONTHS_AHEAD = 6"
definition DEFAULT_RANGE_MONTHS_BEHIND :: nat where "DEFAULT_RANGE_MONTHS_BEHIND = 1"
definition LEGACY_RANGE_MONTHS_AHEAD :: nat where "LEGACY_RANGE_MONTHS_AHEAD = 18"
definition LEGACY_RANGE_MONTHS_BEHIND :: nat where "LEGACY_RANGE_MONTHS_BEHIND = 3"

text \<open>\<open>date >= earliest && date <= latest\<close> compares time values; a comparison with an
  Invalid Date is false.\<close>

definition isWithinWindow :: "runtime \<Rightarrow> int \<Rightarrow> string \<Rightarrow> nat \<Rightarrow> nat \<Rightarrow> bool" where
  "isWithinWindow rt now dateISO monthsAhead monthsBehind =
     (case parseDate rt dateISO of
        None \<Rightarrow> False
      | Some date \<Rightarrow>
          (case subMonths rt now monthsBehind of
             None \<Rightarrow> False
           | Some earliest \<Rightarrow>
               (case addMonths rt now monthsAhead of
                  None \<Rightarrow> False
                | Some latest \<Rightarrow> earliest \<le> date \<and> date \<le> latest)))"

definition isWithinDefaultWindow :: "runtime \<Rightarrow> int \<Rightarrow> string \<Rightarrow> bool" where
  "isWithinDefaultWindow rt now dateISO =
     isWithinWindow rt now dateISO DEFAULT_RANGE_MONTHS_AHEAD DEFAULT_RANGE_MONTHS_BEHIND"

definition toISO :: "runtime \<Rightarrow> string option \<Rightarrow> string option" where
  "toISO rt dateString =
     (case dateString of
        None \<Rightarrow> None
      | Some s \<Rightarrow>
          if s = [] then None
          else (case parseDate rt s of None \<Rightarrow> None | Some t \<Rightarrow> Some (toISOString rt t)))"

text \<open>JavaScript's \<open>a ?? b\<close> on optional values.\<close>

definition orElse :: "'a option \<Rightarrow> 'a option \<Rightarrow> 'a option" where
  "orElse a b = (case a of None \<Rightarrow> b | Some x \<Rightarrow> Some x)"

text \<open>A value used as a condition: a string is truthy when it is present and not empty.\<close>

definition truthy :: "string option \<Rightarrow> bool" where
  "truthy v = (case v of None \<Rightarrow> False | Some s \<Rightarrow> s \<noteq> [])"

section \<open>The club sources (lib/data-sources.ts)\<close>

subsection \<open>Raw provider payloads\<close>

datatype HomeAway = home | away

record RawTeam =
  team_id :: "string option"
  team_displayName :: "string option"
  team_shortDisplayName :: "string option"
  team_abbreviation :: "string option"

record RawCompetitor =
  competitor_id :: "string option"
  competitor_homeAway :: "HomeAway option"
  competitor_team :: "RawTeam option"
  competitor_score :: "string option"

record RawAddress =
  address_city :: "string option"
  address_country :: "string option"

record RawVenue =
  venue_fullName :: "string option"
  venue_address :: "RawAddress option"

record RawStatusType =
  type_state :: "string option"
  type_detail :: "string option"
  type_description :: "string option"

record RawStatus =
  status_type :: "RawStatusType option"

record RawCompetition =
  competition_date :: "string option"
  competition_venue :: "RawVenue option"
  competition_competitors :: "RawCompetitor list option"
  competition_status :: "RawStatus option"

record RawSeasonType =
  seasonType_name :: "string option"

record RawSeason =
  season_displayName :: "string option"

record RawLeague =
  league_name :: "string option"
  league_shortName :: "string option"

record RawEvent =
  event_id :: "string option"
  event_date :: "string option"
  event_name :: "string option"
  event_shortName :: "string option"
  event_seasonType :: "RawSeasonType option"
  event_season :: "RawSeason option"
  event_competitions :: "RawCompetition list option"
  event_league :: "RawLeague option"

record RawTeamSchedule =
  schedule_events :: "RawEvent list option"

subsection \<open>Configuration\<close>

datatype TeamSourceKey = TEAM_MANCHESTER_UNITED | TEAM_LEEDS_UNITED

text \<open>The key as the \<open>source\<close> of an event, and as the text \<open>${source}\<close> of its id.\<close>

fun sourceOf :: "TeamSourceKey \<Rightarrow> CalendarSource" where
  "sourceOf TEAM_MANCHESTER_UNITED = MANCHESTER_UNITED"
| "sourceOf TEAM_LEEDS_UNITED = LEEDS_UNITED"

fun sourceText :: "TeamSourceKey \<Rightarrow> string" where
  "sourceText TEAM_MANCHESTER_UNITED = ''MANCHESTER_UNITED''"
| "sourceText TEAM_LEEDS_UNITED = ''LEEDS_UNITED''"

record TeamSource =
  teamId :: string
  displayName :: string
  endpoints :: "string list"
  scoreboardEndpoints :: "string list"

fun TEAM_SOURCES :: "TeamSourceKey \<Rightarrow> TeamSource" where
  "TEAM_SOURCES TEAM_MANCHESTER_UNITED =
     \<lparr>teamId = ''360'', displayName = ''Manchester United'',
      endpoints = [''https://site.api.espn.com/apis/site/v2/sports/soccer/eng.1/teams/360/schedule''],
      scoreboardEndpoints = [''https://site.api.espn.com/apis/site/v2/sports/soccer/eng.1/scoreboard'']\<rparr>"
| "TEAM_SOURCES TEAM_LEEDS_UNITED =
     \<lparr>teamId = ''357'', displayName = ''Leeds United'',
      endpoints = [''https://site.api.espn.com/apis/site/v2/sports/soccer/eng.1/teams/357/schedule'',
                   ''https://site.api.espn.com/apis/site/v2/sports/soccer/eng.2/teams/357/schedule''],
      scoreboardEndpoints = [''https://site.api.espn.com/apis/site/v2/sports/soccer/eng.1/scoreboard'',
                             ''https://site.api.espn.com/apis/site/v2/sports/soccer/eng.2/scoreboard'']\<rparr>"

subsection \<open>The club normalizer\<close>

definition buildLocation :: "RawVenue option \<Rightarrow> string option" where
  "buildLocation v =
     (case v of
        None \<Rightarrow> None
      | Some ven \<Rightarrow>
          (let pieces = filter truthy
                 [venue_fullName ven,
                  Option.bind (venue_address ven) address_city,
                  Option.bind (venue_address ven) address_country]
           in if pieces \<noteq> [] then Some (join '', '' (map the pieces)) else None))"

definition extractNumericScore :: "string option \<Rightarrow> number option" where
  "extractNumericScore v =
     (case v of
        None \<Rightarrow> None
      | Some s \<Rightarrow>
          if s = [] then None
          else (case match_signed_digits s of
                  None \<Rightarrow> None
                | Some m \<Rightarrow> NumberParseInt m))"

record OurTeam =
  our_id :: string
  our_displayName :: string

record Matchup =
  matchup_title :: string
  matchup_subtitle :: "string option"

text \<open>\<open>competitor.team?.id\<close>\<close>

definition competitorTeamId :: "RawCompetitor \<Rightarrow> string option" where
  "competitorTeamId c = Option.bind (competitor_team c) team_id"

text \<open>The two \<open>find\<close> calls, which \<open>formatMatchup\<close> and \<open>normalizeTeamEvents\<close> both make:
  the first competitor whose team id is ours, and the first whose team id is a non-empty
  string other than ours.\<close>

definition findFocus :: "string \<Rightarrow> RawCompetitor list \<Rightarrow> RawCompetitor option" where
  "findFocus ourId cs = find (\<lambda>c. competitorTeamId c = Some ourId) cs"

definition findOpponent :: "string \<Rightarrow> RawCompetitor list \<Rightarrow> RawCompetitor option" where
  "findOpponent ourId cs =
     find (\<lambda>c. truthy (competitorTeamId c) \<and> competitorTeamId c \<noteq> Some ourId) cs"

definition formatMatchup :: "OurTeam \<Rightarrow> RawCompetitor list \<Rightarrow> Matchup" where
  "formatMatchup ourTeam cs =
     (let focus = findFocus (our_id ourTeam) cs;
          opponent = findOpponent (our_id ourTeam) cs;
          opponentName =
            (case Option.bind (Option.bind opponent competitor_team) team_displayName of
               None \<Rightarrow> ''TBD'' | Some n \<Rightarrow> n);
          qualifier =
            (if Option.bind focus competitor_homeAway = Some home then ''vs''
             else if Option.bind focus competitor_homeAway = Some away then ''@''
             else ''vs'')
      in \<lparr>matchup_title = trim (our_displayName ourTeam @ '' '' @ qualifier @ '' '' @ opponentName),
          matchup_subtitle = Some opponentName\<rparr>)"

text \<open>Lines 251-275 of \<open>normalizeTeamEvents\<close>: \<open>result\<close> and \<open>outcome\<close> from the state of
  the competition, the two score strings and the two status texts.\<close>

definition deriveResult ::
  "string option \<Rightarrow> string option \<Rightarrow> string option \<Rightarrow> string option \<Rightarrow> string option
     \<Rightarrow> string option \<times> CalendarOutcome option" where
  "deriveResult state focusScore opponentScore statusDetail statusDescription =
     (if state = Some ''post'' then
        (if truthy focusScore \<and> truthy opponentScore then
           (Some (the focusScore @ '' - '' @ the opponentScore),
            (case extractNumericScore focusScore of
               None \<Rightarrow> None
             | Some focusNumeric \<Rightarrow>
                 (case extractNumericScore opponentScore of
                    None \<Rightarrow> None
                  | Some opponentNumeric \<Rightarrow>
                      if lessNumber opponentNumeric focusNumeric then Some WIN
                      else if lessNumber focusNumeric opponentNumeric then Some LOSS
                      else Some DRAW)))
         else if truthy statusDetail then (statusDetail, None)
         else if truthy statusDescription then (statusDescription, None)
         else (None, None))
      else (None, None))"

text \<open>\<open>event.competitions?.[0]\<close>\<close>

definition firstCompetition :: "RawEvent \<Rightarrow> RawCompetition option" where
  "firstCompetition event =
     (case event_competitions event of
        None \<Rightarrow> None
      | Some [] \<Rightarrow> None
      | Some (c # _) \<Rightarrow> Some c)"

text \<open>The constants the loop body of \<open>normalizeTeamEvents\<close> reads off a raw event:
  \<open>competition?.competitors ?? []\<close>, the three texts of \<open>competition?.status?.type\<close>, and
  the scores of \<open>focusCompetitor\<close> and \<open>opponentCompetitor\<close>.\<close>

definition competitorsOf :: "RawEvent \<Rightarrow> RawCompetitor list" where
  "competitorsOf event =
     (case Option.bind (firstCompetition event) competition_competitors of
        None \<Rightarrow> [] | Some cs \<Rightarrow> cs)"

definition statusTypeOf :: "RawEvent \<Rightarrow> RawStatusType option" where
  "statusTypeOf event =
     Option.bind (Option.bind (firstCompetition event) competition_status) status_type"

definition stateOf :: "RawEvent \<Rightarrow> string option" where
  "stateOf event = Option.bind (statusTypeOf event) type_state"

definition statusDetailOf :: "RawEvent \<Rightarrow> string option" where
  "statusDetailOf event = Option.bind (statusTypeOf event) type_detail"

definition statusDescriptionOf :: "RawEvent \<Rightarrow> string option" where
  "statusDescriptionOf event = Option.bind (statusTypeOf event) type_description"

definition focusScoreOf :: "TeamSourceKey \<Rightarrow> RawEvent \<Rightarrow> string option" where
  "focusScoreOf src event =
     Option.bind (findFocus (teamId (TEAM_SOURCES src)) (competitorsOf event)) competitor_score"

definition opponentScoreOf :: "TeamSourceKey \<Rightarrow> RawEvent \<Rightarrow> string option" where
  "opponentScoreOf src event =
     Option.bind (findOpponent (teamId (TEAM_SOURCES src)) (competitorsOf event)) competitor_score"

text \<open>\<open>competition?.date ?? event.date\<close>\<close>

definition rawDateOf :: "RawEvent \<Rightarrow> string option" where
  "rawDateOf event = orElse (Option.bind (firstCompetition event) competition_date) (event_date event)"

text \<open>The object the loop of \<open>normalizeTeamEvents\<close> pushes for a raw event whose start
  time passed the checks.\<close>

definition teamEventOf :: "TeamSourceKey \<Rightarrow> RawEvent \<Rightarrow> string \<Rightarrow> CalendarEventWithMeta" where
  "teamEventOf src event startTime =
     (let config = TEAM_SOURCES src;
          compn = firstCompetition event;
          matchup = formatMatchup
            \<lparr>our_id = teamId config, our_displayName = displayName config\<rparr>
            (competitorsOf event);
          ro = deriveResult (stateOf event) (focusScoreOf src event)
                 (opponentScoreOf src event) (statusDetailOf event)
                 (statusDescriptionOf event)
      in \<lparr>id' = sourceText src @ ''-'' @
                 (case event_id event of None \<Rightarrow> startTime | Some i \<Rightarrow> i),
          source = sourceOf src,
          title = matchup_title matchup,
          competition =
            orElse (Option.bind (event_league event) league_shortName)
              (orElse (Option.bind (event_seasonType event) seasonType_name)
                 (Option.bind (event_season event) season_displayName)),
          fighters = None,
          startTimeUTC = startTime,
          result = fst ro,
          outcome = snd ro,
          venue = Option.bind (Option.bind compn competition_venue) venue_fullName,
          location = buildLocation (Option.bind compn competition_venue),
          status = orElse (statusDetailOf event) (statusDescriptionOf event),
          url = None,
          subtitle = matchup_subtitle matchup\<rparr>)"

text \<open>The body of the loop of \<open>normalizeTeamEvents\<close> for one raw event; \<open>None\<close> is
  \<open>continue\<close>, \<open>now\<close> the reading of the clock in \<open>isWithinWindow\<close>.\<close>

definition normalizeTeamEvent ::
  "runtime \<Rightarrow> int \<Rightarrow> TeamSourceKey \<Rightarrow> RawEvent \<Rightarrow> CalendarEventWithMeta option" where
  "normalizeTeamEvent rt now src event =
     (case toISO rt (rawDateOf event) of
        None \<Rightarrow> None
      | Some startTime \<Rightarrow>
          if startTime = [] \<or> \<not> isWithinDefaultWindow rt now startTime then None
          else Some (teamEventOf src event startTime))"

text \<open>The loop: the clock is read once for each raw event that has a date, and
  \<open>clock i\<close> is its reading while the event at index \<open>i\<close> is examined.\<close>

fun normalizeTeamEventsFrom ::
  "runtime \<Rightarrow> (nat \<Rightarrow> int) \<Rightarrow> TeamSourceKey \<Rightarrow> nat \<Rightarrow> RawEvent list \<Rightarrow> CalendarEventWithMeta list" where
  "normalizeTeamEventsFrom rt clock src i [] = []"
| "normalizeTeamEventsFrom rt clock src i (event # rest) =
     (case normalizeTeamEvent rt (clock i) src event of
        None \<Rightarrow> normalizeTeamEventsFrom rt clock src (Suc i) rest
      | Some e \<Rightarrow> e # normalizeTeamEventsFrom rt clock src (Suc i) rest)"

definition normalizeTeamEvents ::
  "runtime \<Rightarrow> (nat \<Rightarrow> int) \<Rightarrow> RawEvent list option \<Rightarrow> TeamSourceKey \<Rightarrow> CalendarEventWithMeta list" where
  "normalizeTeamEvents rt clock events src =
     normalizeTeamEventsFrom rt clock src 0 (case events of None \<Rightarrow> [] | Some es \<Rightarrow> es)"

section \<open>The combat-sports source\<close>

record RawAthlete =
  athlete_displayName :: "string option"

record RawUfcCompetitor =
  ufcCompetitor_athlete :: "RawAthlete option"

record RawCardSegment =
  cardSegment_name :: "string option"

record RawUfcType =
  ufcType_text :: "string option"
  ufcType_abbreviation :: "string option"

text \<open>\<open>matchNumber\<close> is a JSON number; the provider numbers the bouts of a card with
  integers.\<close>

record RawUfcCompetition =
  ufcCompetition_id :: "string option"
  ufcCompetition_date :: "string option"
  ufcCompetition_matchNumber :: "int option"
  ufcCompetition_cardSegment :: "RawCardSegment option"
  ufcCompetition_type :: "RawUfcType option"
  ufcCompetition_competitors :: "RawUfcCompetitor list option"

record RawUfcEvent =
  ufcEvent_id :: "string option"
  ufcEvent_date :: "string option"
  ufcEvent_name :: "string option"
  ufcEvent_shortName :: "string option"
  ufcEvent_competitions :: "RawUfcCompetition list option"

record RawUfcScoreboard =
  ufc_events :: "RawUfcEvent list option"

definition matchRank :: "RawUfcCompetition \<Rightarrow> int" where
  "matchRank c = (case ufcCompetition_matchNumber c of None \<Rightarrow> 100 | Some n \<Rightarrow> n)"

text \<open>\<open>reduce\<close> without an initial value starts from the first element of the (non-empty)
  pool; on an empty array it would throw, which the guard before it excludes.\<close>

definition pickMainUfcCompetition :: "RawUfcCompetition list option \<Rightarrow> RawUfcCompetition option" where
  "pickMainUfcCompetition competitions =
     (case competitions of
        None \<Rightarrow> None
      | Some [] \<Rightarrow> None
      | Some (c # cs) \<Rightarrow>
          (let mainCandidates =
                 filter (\<lambda>x. Option.bind (ufcCompetition_cardSegment x) cardSegment_name = Some ''main'')
                   (c # cs);
               pool = (if mainCandidates \<noteq> [] then mainCandidates else c # cs)
           in Some (foldl (\<lambda>best current. if matchRank current < matchRank best then current else best)
                      (hd pool) (tl pool))))"

text \<open>\<open>event.date ?? competition?.date\<close>, for the competition picked.\<close>

definition ufcRawDateOf :: "RawUfcEvent \<Rightarrow> string option" where
  "ufcRawDateOf event =
     orElse (ufcEvent_date event)
       (Option.bind (pickMainUfcCompetition (ufcEvent_competitions event)) ufcCompetition_date)"

text \<open>The object the loop of \<open>normalizeUfcEvents\<close> pushes.\<close>

definition ufcEventOf :: "RawUfcEvent \<Rightarrow> string \<Rightarrow> string \<Rightarrow> CalendarEventWithMeta" where
  "ufcEventOf event eventId startTime =
     (let compn = pickMainUfcCompetition (ufcEvent_competitions event);
          competitors =
            (case Option.bind compn ufcCompetition_competitors of
               None \<Rightarrow> [] | Some cs \<Rightarrow> cs);
          fighterNames =
            join '' vs ''
              (map the (filter truthy
                 (map (\<lambda>c. Option.bind (ufcCompetitor_athlete c) athlete_displayName)
                    competitors)));
          typeText = Option.bind (Option.bind compn ufcCompetition_type) ufcType_text;
          typeAbbreviation =
            Option.bind (Option.bind compn ufcCompetition_type) ufcType_abbreviation
      in \<lparr>id' = ''UFC-'' @ eventId,
          source = UFC,
          title = (case orElse (ufcEvent_name event) typeText of
                     None \<Rightarrow> ''UFC Event'' | Some t \<Rightarrow> t),
          competition = orElse typeText typeAbbreviation,
          fighters = (if fighterNames \<noteq> [] then Some fighterNames else None),
          startTimeUTC = startTime,
          result = None,
          outcome = None,
          venue = None,
          location = None,
          status = None,
          url = None,
          subtitle = None\<rparr>)"

text \<open>The body of the loop of \<open>normalizeUfcEvents\<close> after the check of the id.\<close>

definition normalizeUfcEvent ::
  "runtime \<Rightarrow> int \<Rightarrow> RawUfcEvent \<Rightarrow> string \<Rightarrow> CalendarEventWithMeta option" where
  "normalizeUfcEvent rt now event eventId =
     (case toISO rt (ufcRawDateOf event) of
        None \<Rightarrow> None
      | Some startTime \<Rightarrow>
          if startTime = [] \<or> \<not> isWithinDefaultWindow rt now startTime then None
          else Some (ufcEventOf event eventId startTime))"

fun normalizeUfcEventsFrom ::
  "runtime \<Rightarrow> (nat \<Rightarrow> int) \<Rightarrow> nat \<Rightarrow> string set \<Rightarrow> RawUfcEvent list \<Rightarrow> CalendarEventWithMeta list" where
  "normalizeUfcEventsFrom rt clock i seen [] = []"
| "normalizeUfcEventsFrom rt clock i seen (event # rest) =
     (case ufcEvent_id event of
        None \<Rightarrow> normalizeUfcEventsFrom rt clock (Suc i) seen rest
      | Some eventId \<Rightarrow>
          if eventId = [] \<or> eventId \<in> seen then normalizeUfcEventsFrom rt clock (Suc i) seen rest
          else (case normalizeUfcEvent rt (clock i) event eventId of
                  None \<Rightarrow> normalizeUfcEventsFrom rt clock (Suc i) (insert eventId seen) rest
                | Some e \<Rightarrow> e # normalizeUfcEventsFrom rt clock (Suc i) (insert eventId seen) rest))"

definition normalizeUfcEvents ::
  "runtime \<Rightarrow> (nat \<Rightarrow> int) \<Rightarrow> RawUfcScoreboard \<Rightarrow> CalendarEventWithMeta list" where
  "normalizeUfcEvents rt clock data =
     normalizeUfcEventsFrom rt clock 0 {} (case ufc_events data of None \<Rightarrow> [] | Some es \<Rightarrow> es)"

section \<open>Fetching\<close>

text \<open>
  The network is a function from the URL to what \<open>fetch\<close> does with it: it rejects
  (\<open>Inl\<close>) or resolves to a response, whose \<open>json()\<close> in turn rejects or gives the parsed
  body, taken at the TypeScript type the caller reads it at. Everything \<open>fetch\<close> and
  \<open>json()\<close> throw is an Error object, so a caught error is always truthy.
\<close>

record 'a Response =
  response_ok :: bool
  response_status :: nat
  response_statusText :: string
  response_json :: "error + 'a"

type_synonym 'a network = "string \<Rightarrow> error + 'a Response"

fun show_nat :: "nat \<Rightarrow> string" where
  "show_nat n =
     (if n < 10 then [char_of (48 + n)] else show_nat (n div 10) @ [char_of (48 + n mod 10)])"

definition fetchJson :: "'a network \<Rightarrow> string \<Rightarrow> error + 'a" where
  "fetchJson fetch u =
     (case fetch u of
        Inl e \<Rightarrow> Inl e
      | Inr response \<Rightarrow>
          if \<not> response_ok response then
            Inl (Error (''Failed to fetch '' @ u @ '': '' @ show_nat (response_status response)
                        @ '' '' @ response_statusText response))
          else response_json response)"

text \<open>The query string \<open>dates=yyyyMMdd-yyyyMMdd\<close> of the two scoreboard URLs.
  \<open>format\<close> of \<open>date-fns\<close> throws a RangeError on an Invalid Date; its output for the
  pattern \<open>yyyyMMdd\<close> is digits, which \<open>URLSearchParams\<close> leaves as they are.\<close>

definition windowDates :: "runtime \<Rightarrow> int \<Rightarrow> error + string" where
  "windowDates rt now =
     (case subMonths rt now DEFAULT_RANGE_MONTHS_BEHIND of
        None \<Rightarrow> Inl (RangeError ''Invalid time value'')
      | Some earliest \<Rightarrow>
          (case addMonths rt now DEFAULT_RANGE_MONTHS_AHEAD of
             None \<Rightarrow> Inl (RangeError ''Invalid time value'')
           | Some latest \<Rightarrow>
               Inr (format_yyyyMMdd rt earliest @ ''-'' @ format_yyyyMMdd rt latest)))"

definition UFC_SCOREBOARD_ENDPOINT :: string where
  "UFC_SCOREBOARD_ENDPOINT = ''https://site.api.espn.com/apis/site/v2/sports/mma/ufc/scoreboard''"

definition LIQUIPEDIA_ENDPOINT :: string where
  "LIQUIPEDIA_ENDPOINT = ''https://liquipedia.net/counterstrike/api.php''"

definition buildUfcScoreboardUrl :: "runtime \<Rightarrow> int \<Rightarrow> error + string" where
  "buildUfcScoreboardUrl rt now =
     (case windowDates rt now of
        Inl e \<Rightarrow> Inl e
      | Inr dates \<Rightarrow> Inr (UFC_SCOREBOARD_ENDPOINT @ ''?limit=50&dates='' @ dates))"

definition buildSoccerScoreboardUrl :: "runtime \<Rightarrow> int \<Rightarrow> string \<Rightarrow> error + string" where
  "buildSoccerScoreboardUrl rt now endpoint =
     (case windowDates rt now of
        Inl e \<Rightarrow> Inl e
      | Inr dates \<Rightarrow> Inr (endpoint @ ''?limit=200&dates='' @ dates))"

subsection \<open>The club schedule: the first endpoint with events\<close>

text \<open>The loop of \<open>fetchTeamSchedule\<close> over the endpoints still to try; \<open>rest \<noteq> []\<close> is
  \<open>index < endpoints.length - 1\<close>. The result \<open>Inr None\<close> is \<open>return null\<close>.\<close>

definition hasEvents :: "RawTeamSchedule \<Rightarrow> bool" where
  "hasEvents data = (case schedule_events data of None \<Rightarrow> False | Some es \<Rightarrow> length es > 0)"

fun fetchTeamScheduleFrom ::
  "RawTeamSchedule network \<Rightarrow> string list \<Rightarrow> error option \<Rightarrow> error + RawTeamSchedule option" where
  "fetchTeamScheduleFrom fetch [] lastError =
     (case lastError of Some e \<Rightarrow> Inl e | None \<Rightarrow> Inr None)"
| "fetchTeamScheduleFrom fetch (endpoint # rest) lastError =
     (case fetchJson fetch endpoint of
        Inl e \<Rightarrow> fetchTeamScheduleFrom fetch rest (Some e)
      | Inr data \<Rightarrow>
          if \<not> hasEvents data \<and> rest \<noteq> [] then fetchTeamScheduleFrom fetch rest lastError
          else Inr (Some data))"

definition fetchTeamSchedule ::
  "RawTeamSchedule network \<Rightarrow> TeamSourceKey \<Rightarrow> error + RawTeamSchedule option" where
  "fetchTeamSchedule fetch src = fetchTeamScheduleFrom fetch (endpoints (TEAM_SOURCES src)) None"

subsection \<open>The club scoreboards: every endpoint, filtered to the club\<close>

record RawSoccerScoreboard =
  scoreboard_events :: "RawEvent list option"

definition matchesTeam :: "string \<Rightarrow> RawEvent \<Rightarrow> bool" where
  "matchesTeam tid event =
     list_ex (\<lambda>c. competitorTeamId c = Some tid) (competitorsOf event)"

text \<open>The \<open>try\<close> block of \<open>fetchTeamScoreboardEvents\<close> for one endpoint: the URL is built
  and fetched (\<open>scoreboardAttempt\<close>, where \<open>Inl\<close> is what the \<open>catch\<close> receives), and the
  events with the club among the competitors of their first competition are kept
  (\<open>qualifying\<close>).\<close>

definition scoreboardAttempt ::
  "RawSoccerScoreboard network \<Rightarrow> runtime \<Rightarrow> int \<Rightarrow> string \<Rightarrow> error + RawSoccerScoreboard" where
  "scoreboardAttempt fetch rt now endpoint =
     (case buildSoccerScoreboardUrl rt now endpoint of
        Inl e \<Rightarrow> Inl e
      | Inr u \<Rightarrow> fetchJson fetch u)"

definition qualifying :: "string \<Rightarrow> RawSoccerScoreboard \<Rightarrow> RawEvent list" where
  "qualifying tid data =
     filter (matchesTeam tid) (case scoreboard_events data of None \<Rightarrow> [] | Some es \<Rightarrow> es)"

text \<open>The loop of \<open>fetchTeamScoreboardEvents\<close>: the events collected so far and the last
  error caught; \<open>clock i\<close> is the reading of the clock when the URL of the endpoint at
  index \<open>i\<close> is built.\<close>

fun scoreboardLoop ::
  "RawSoccerScoreboard network \<Rightarrow> runtime \<Rightarrow> (nat \<Rightarrow> int) \<Rightarrow> string \<Rightarrow> nat \<Rightarrow> string list
     \<Rightarrow> RawEvent list \<Rightarrow> error option \<Rightarrow> RawEvent list \<times> error option" where
  "scoreboardLoop fetch rt clock tid i [] aggregated lastError = (aggregated, lastError)"
| "scoreboardLoop fetch rt clock tid i (endpoint # rest) aggregated lastError =
     (case scoreboardAttempt fetch rt (clock i) endpoint of
        Inl e \<Rightarrow> scoreboardLoop fetch rt clock tid (Suc i) rest aggregated (Some e)
      | Inr data \<Rightarrow>
          scoreboardLoop fetch rt clock tid (Suc i) rest (aggregated @ qualifying tid data) lastError)"

definition fetchTeamScoreboardEvents ::
  "RawSoccerScoreboard network \<Rightarrow> runtime \<Rightarrow> (nat \<Rightarrow> int) \<Rightarrow> TeamSourceKey \<Rightarrow> error + RawEvent list" where
  "fetchTeamScoreboardEvents fetch rt clock src =
     (let config = TEAM_SOURCES src
      in if scoreboardEndpoints config = [] then Inr []
         else (case scoreboardLoop fetch rt clock (teamId config) 0 (scoreboardEndpoints config) [] None of
                 (aggregated, lastError) \<Rightarrow>
                   (case lastError of
                      Some e \<Rightarrow> if aggregated = [] then Inl e else Inr aggregated
                    | None \<Rightarrow> Inr aggregated)))"

section \<open>Merging and sorting\<close>

text \<open>
  A number that may be NaN is an \<open>int option\<close>; a difference with a NaN operand is NaN.
\<close>

definition minusNumber :: "int option \<Rightarrow> int option \<Rightarrow> int option" where
  "minusNumber a b =
     (case a of None \<Rightarrow> None | Some x \<Rightarrow> (case b of None \<Rightarrow> None | Some y \<Rightarrow> Some (x - y)))"

text \<open>\<open>new Date(e.startTimeUTC).getTime()\<close>\<close>

definition getTime :: "runtime \<Rightarrow> CalendarEventWithMeta \<Rightarrow> int option" where
  "getTime rt e = parseDate rt (startTimeUTC e)"

text \<open>
  \<open>Array.prototype.sort\<close> and \<open>toSorted\<close> are stable, and read a comparator's NaN as 0.
  For a comparator that is a total preorder every stable sort returns the same array,
  here by insertion; for any other comparator the order is the engine's choice, and the
  insertion sort is one such choice.
\<close>

definition sortCompare :: "('a \<Rightarrow> 'a \<Rightarrow> int option) \<Rightarrow> 'a \<Rightarrow> 'a \<Rightarrow> int" where
  "sortCompare comparefn x y = (case comparefn x y of None \<Rightarrow> 0 | Some v \<Rightarrow> v)"

fun insertSorted :: "('a \<Rightarrow> 'a \<Rightarrow> int option) \<Rightarrow> 'a \<Rightarrow> 'a list \<Rightarrow> 'a list" where
  "insertSorted comparefn x [] = [x]"
| "insertSorted comparefn x (y # ys) =
     (if sortCompare comparefn x y \<le> 0 then x # y # ys else y # insertSorted comparefn x ys)"

definition toSorted :: "('a \<Rightarrow> 'a \<Rightarrow> int option) \<Rightarrow> 'a list \<Rightarrow> 'a list" where
  "toSorted comparefn xs = foldr (insertSorted comparefn) xs []"

text \<open>
  A JavaScript \<open>Map\<close> keeps its keys in the order of their first insertion: \<open>set\<close>
  replaces the value of a key it has and appends a key it has not; \<open>values()\<close> lists the
  values in that order.
\<close>

fun mapSet :: "('k \<times> 'v) list \<Rightarrow> 'k \<Rightarrow> 'v \<Rightarrow> ('k \<times> 'v) list" where
  "mapSet [] k v = [(k, v)]"
| "mapSet ((k', v') # m) k v = (if k' = k then (k, v) # m else (k', v') # mapSet m k v)"

definition mapValues :: "('k \<times> 'v) list \<Rightarrow> 'v list" where
  "mapValues m = map snd m"

text \<open>The two nested loops of \<open>mergeAndSortEvents\<close>: \<open>setAll\<close> is the inner one, over the
  events of one list; \<open>dedupe\<close> the outer one, over the lists, from the empty map.\<close>

definition setAll ::
  "(string \<times> CalendarEventWithMeta) list \<Rightarrow> CalendarEventWithMeta list
     \<Rightarrow> (string \<times> CalendarEventWithMeta) list" where
  "setAll deduped events = foldl (\<lambda>m event. mapSet m (id' event) event) deduped events"

definition dedupe :: "CalendarEventWithMeta list list \<Rightarrow> (string \<times> CalendarEventWithMeta) list" where
  "dedupe sources = foldl setAll [] sources"

definition byTime :: "runtime \<Rightarrow> CalendarEventWithMeta \<Rightarrow> CalendarEventWithMeta \<Rightarrow> int option" where
  "byTime rt a b = minusNumber (getTime rt a) (getTime rt b)"

definition mergeAndSortEvents ::
  "runtime \<Rightarrow> CalendarEventWithMeta list list \<Rightarrow> CalendarEventWithMeta list" where
  "mergeAndSortEvents rt sources = toSorted (byTime rt) (mapValues (dedupe sources))"

section \<open>The esports roster page\<close>

text \<open>
  \<open>node-html-parser\<close> is not code of this repository. Its elements are the values of a
  type \<open>'el\<close>, and the five functions the normalizer calls are the fields of a \<open>dom\<close>,
  about which nothing is assumed.
\<close>

record 'el dom =
  parseHtml :: "string \<Rightarrow> 'el"
  querySelectorAll :: "'el \<Rightarrow> string \<Rightarrow> 'el list"
  querySelector :: "'el \<Rightarrow> string \<Rightarrow> 'el option"
  getAttribute :: "'el \<Rightarrow> string \<Rightarrow> string option"
  textContent :: "'el \<Rightarrow> string"

definition cleanText :: "string option \<Rightarrow> string option" where
  "cleanText v =
     (case v of
        None \<Rightarrow> None
      | Some s \<Rightarrow>
          if s = [] then None
          else (let trimmed = trim (collapse_spaces False s)
                in if trimmed \<noteq> [] then Some trimmed else None))"

definition isMatchRow :: "'el dom \<Rightarrow> 'el \<Rightarrow> bool" where
  "isMatchRow lib row =
     (case getAttribute lib row ''class'' of
        None \<Rightarrow> False
      | Some classAttr \<Rightarrow>
          if classAttr = [] then False
          else list_ex (\<lambda>className.
                 startsWith className ''recent-matches'' \<or>
                 startsWith className ''upcoming-matches'' \<or>
                 startsWith className ''upcoming-match'' \<or>
                 className = ''match-row'')
               (split_spaces classAttr))"

text \<open>\<open>cells[i]?.textContent\<close>: an index past the end of an array reads \<open>undefined\<close>.\<close>

definition at :: "'a list \<Rightarrow> nat \<Rightarrow> 'a option" where
  "at xs i = (if i < length xs then Some (xs ! i) else None)"

text \<open>A time value is valid up to 8.64e15 milliseconds either side of the epoch;
  \<open>toISOString\<close> of an Invalid Date throws a RangeError.\<close>

definition dateToISOString :: "runtime \<Rightarrow> int \<Rightarrow> error + string" where
  "dateToISOString rt ms =
     (if \<bar>ms\<bar> \<le> 8640000000000000 then Inr (toISOString rt ms)
      else Inl (RangeError ''Invalid time value''))"

definition MIDDLE_DOT :: string where
  "MIDDLE_DOT = [CHR '' '', CHR 0xB7, CHR '' '']"

definition legacyOutcome :: "string list \<Rightarrow> CalendarOutcome option" where
  "legacyOutcome rowClasses =
     (if list_ex (\<lambda>className. includes' className ''bg-win'') rowClasses then Some WIN
      else if list_ex (\<lambda>className. includes' className ''bg-lose'') rowClasses then Some LOSS
      else if list_ex (\<lambda>className. includes' className ''bg-draw'' \<or> includes' className ''bg-tie'')
                rowClasses then Some DRAW
      else None)"

text \<open>The constants the loop body reads off the cells of a row: \<open>competition\<close>,
  \<open>tournamentHref\<close>, \<open>opponentText\<close> and the \<open>id\<close>.\<close>

definition tournamentLinkOf :: "'el dom \<Rightarrow> 'el list \<Rightarrow> 'el option" where
  "tournamentLinkOf lib cells = Option.bind (at cells 5) (\<lambda>c. querySelector lib c ''a'')"

definition competitionOf :: "'el dom \<Rightarrow> 'el list \<Rightarrow> string option" where
  "competitionOf lib cells =
     cleanText (orElse (map_option (textContent lib) (tournamentLinkOf lib cells))
                  (map_option (textContent lib) (at cells 5)))"

definition tournamentHrefOf :: "'el dom \<Rightarrow> 'el list \<Rightarrow> string option" where
  "tournamentHrefOf lib cells =
     Option.bind (tournamentLinkOf lib cells) (\<lambda>a. getAttribute lib a ''href'')"

definition opponentTextOf :: "'el dom \<Rightarrow> 'el list \<Rightarrow> string option" where
  "opponentTextOf lib cells = cleanText (map_option (textContent lib) (at cells 7))"

definition legacyId :: "'el dom \<Rightarrow> string option \<Rightarrow> 'el list \<Rightarrow> string" where
  "legacyId lib timestampAttr cells =
     ''LEGACY_CS2-'' @
       (case timestampAttr of
          Some a \<Rightarrow> a
        | None \<Rightarrow> (case competitionOf lib cells of None \<Rightarrow> ''match'' | Some c \<Rightarrow> c) @ ''-'' @
                   (case opponentTextOf lib cells of None \<Rightarrow> ''opponent'' | Some opp \<Rightarrow> opp))"

text \<open>The object the loop pushes for a row, \<open>link\<close> being its \<open>url\<close>.\<close>

definition legacyEventOf ::
  "'el dom \<Rightarrow> 'el \<Rightarrow> string option \<Rightarrow> string \<Rightarrow> 'el list \<Rightarrow> string option
     \<Rightarrow> CalendarEventWithMeta" where
  "legacyEventOf lib row timestampAttr startTime cells link =
     (let rowClasses =
            filter (\<lambda>c. c \<noteq> [])
              (split_spaces (case getAttribute lib row ''class'' of None \<Rightarrow> [] | Some a \<Rightarrow> a));
          tierText = cleanText (map_option (textContent lib) (at cells 1));
          typeText = cleanText (map_option (textContent lib) (at cells 2));
          compn = competitionOf lib cells;
          scoreText = cleanText (map_option (textContent lib) (at cells 6));
          opponentText = opponentTextOf lib cells;
          statusParts = filter truthy [tierText, typeText];
          subtitleParts = filter truthy [opponentText, compn];
          hasNumericScore =
            (case scoreText of None \<Rightarrow> False | Some sc \<Rightarrow> list_ex is_digit sc)
      in \<lparr>id' = legacyId lib timestampAttr cells,
          source = LEGACY_CS2,
          title = (case opponentText of
                     Some opp \<Rightarrow> ''Legacy vs '' @ opp
                   | None \<Rightarrow> (case compn of None \<Rightarrow> ''Legacy match'' | Some c \<Rightarrow> c)),
          competition = compn,
          fighters = None,
          startTimeUTC = startTime,
          result = (if hasNumericScore then scoreText else None),
          outcome = legacyOutcome rowClasses,
          venue = None,
          location = None,
          status = (if statusParts \<noteq> [] then Some (join MIDDLE_DOT (map the statusParts))
                    else None),
          url = link,
          subtitle = (if subtitleParts \<noteq> []
                      then Some (join MIDDLE_DOT (map the subtitleParts)) else None)\<rparr>)"

text \<open>The part of the loop body of \<open>normalizeLegacyCs2Matches\<close> after the check of the
  cells, for a row whose start time is known: the URL is resolved, which may throw
  (\<open>Inl\<close>), and a row whose id was seen is skipped (\<open>None\<close> is \<open>continue\<close>).\<close>

definition legacyEventOfRow ::
  "'el dom \<Rightarrow> runtime \<Rightarrow> string set \<Rightarrow> 'el \<Rightarrow> string option \<Rightarrow> string \<Rightarrow> 'el list
     \<Rightarrow> error + CalendarEventWithMeta option" where
  "legacyEventOfRow lib rt seen row timestampAttr startTime cells =
     (case (if truthy (tournamentHrefOf lib cells)
            then map_sum id Some (newURL rt (the (tournamentHrefOf lib cells)) ''https://liquipedia.net'')
            else Inr None) of
        Inl e \<Rightarrow> Inl e
      | Inr link \<Rightarrow>
          if legacyId lib timestampAttr cells \<in> seen then Inr None
          else Inr (Some (legacyEventOf lib row timestampAttr startTime cells link)))"

text \<open>The whole loop body for one row;
  \<open>timestampAttrOf\<close> is \<open>row.querySelector('[data-timestamp]')?.getAttribute("data-timestamp")\<close>.
  The seconds are the integer read: the double of \<open>Number.parseInt\<close> is that integer
  up to \<open>2^53\<close>, and beyond it the product with 1000 is far outside the range of a \<open>Date\<close>
  for the integer and for its double alike.\<close>

definition timestampAttrOf :: "'el dom \<Rightarrow> 'el \<Rightarrow> string option" where
  "timestampAttrOf lib row =
     Option.bind (querySelector lib row ''[data-timestamp]'')
       (\<lambda>el. getAttribute lib el ''data-timestamp'')"

definition normalizeLegacyRow ::
  "'el dom \<Rightarrow> runtime \<Rightarrow> int \<Rightarrow> string set \<Rightarrow> 'el \<Rightarrow> error + CalendarEventWithMeta option" where
  "normalizeLegacyRow lib rt now seen row =
     (let timestampAttr = timestampAttrOf lib row;
          timestamp = (if truthy timestampAttr then parseInt10 (the timestampAttr) else None)
      in case timestamp of
           None \<Rightarrow> Inr None
         | Some seconds \<Rightarrow>
             (case dateToISOString rt (seconds * 1000) of
                Inl e \<Rightarrow> Inl e
              | Inr startTime \<Rightarrow>
                  if startTime = [] \<or>
                     \<not> isWithinWindow rt now startTime LEGACY_RANGE_MONTHS_AHEAD LEGACY_RANGE_MONTHS_BEHIND
                  then Inr None
                  else (let cells = querySelectorAll lib row ''td''
                        in if length cells < 7 then Inr None
                           else legacyEventOfRow lib rt seen row timestampAttr startTime cells)))"

fun normalizeLegacyRows ::
  "'el dom \<Rightarrow> runtime \<Rightarrow> (nat \<Rightarrow> int) \<Rightarrow> nat \<Rightarrow> string set \<Rightarrow> 'el list
     \<Rightarrow> error + CalendarEventWithMeta list" where
  "normalizeLegacyRows lib rt clock i seen [] = Inr []"
| "normalizeLegacyRows lib rt clock i seen (row # rest) =
     (case normalizeLegacyRow lib rt (clock i) seen row of
        Inl e \<Rightarrow> Inl e
      | Inr None \<Rightarrow> normalizeLegacyRows lib rt clock (Suc i) seen rest
      | Inr (Some e) \<Rightarrow>
          (case normalizeLegacyRows lib rt clock (Suc i) (insert (id' e) seen) rest of
             Inl err \<Rightarrow> Inl err
           | Inr es \<Rightarrow> Inr (e # es)))"

definition normalizeLegacyCs2Matches ::
  "'el dom \<Rightarrow> runtime \<Rightarrow> (nat \<Rightarrow> int) \<Rightarrow> string \<Rightarrow> error + CalendarEventWithMeta list" where
  "normalizeLegacyCs2Matches lib rt clock html =
     normalizeLegacyRows lib rt clock 0 {}
       (filter (isMatchRow lib) (querySelectorAll lib (parseHtml lib html) ''tr''))"

section \<open>One aggregation cycle\<close>

text \<open>
  Everything outside the process that a cycle reads: the runtime and the HTML library,
  the network as each fetcher meets it, and the readings of the clock, one sequence for
  each place where the code reads it in a loop.
\<close>

record LiquipediaText =
  text_star :: "string option"

record LiquipediaParse =
  parse_text :: "LiquipediaText option"

record LiquipediaParseResponse =
  liquipedia_parse :: "LiquipediaParse option"

record 'el world =
  runtimeOf :: runtime
  domOf :: "'el dom"
  scheduleNetwork :: "TeamSourceKey \<Rightarrow> RawTeamSchedule network"
  scoreboardNetwork :: "TeamSourceKey \<Rightarrow> RawSoccerScoreboard network"
  ufcNetwork :: "RawUfcScoreboard network"
  liquipediaNetwork :: "LiquipediaParseResponse network"
  clockScoreboardUrl :: "TeamSourceKey \<Rightarrow> nat \<Rightarrow> int"
  clockSchedule :: "TeamSourceKey \<Rightarrow> nat \<Rightarrow> int"
  clockScoreboard :: "TeamSourceKey \<Rightarrow> nat \<Rightarrow> int"
  clockUfcUrl :: int
  clockUfc :: "nat \<Rightarrow> int"
  clockLegacy :: "nat \<Rightarrow> int"

text \<open>
  \<open>Promise.all\<close> fulfils with all the values when every promise fulfils and rejects as
  soon as one rejects. When several reject, JavaScript reports the one that rejects
  first in time; the model reports the leftmost, and no theorem below depends on which.
\<close>

definition promiseBoth :: "error + 'a \<Rightarrow> error + 'b \<Rightarrow> error + 'a \<times> 'b" where
  "promiseBoth a b =
     (case a of
        Inl e \<Rightarrow> Inl e
      | Inr x \<Rightarrow> (case b of Inl e \<Rightarrow> Inl e | Inr y \<Rightarrow> Inr (x, y)))"

fun promiseAll :: "(error + 'a) list \<Rightarrow> error + 'a list" where
  "promiseAll [] = Inr []"
| "promiseAll (p # ps) =
     (case p of
        Inl e \<Rightarrow> Inl e
      | Inr x \<Rightarrow> (case promiseAll ps of Inl e \<Rightarrow> Inl e | Inr xs \<Rightarrow> Inr (x # xs)))"

text \<open>\<open>fetchManchesterUnitedEvents\<close> and \<open>fetchLeedsUnitedEvents\<close> are the same function
  body at the two keys.\<close>

definition fetchClubEvents :: "'el world \<Rightarrow> TeamSourceKey \<Rightarrow> error + CalendarEventWithMeta list" where
  "fetchClubEvents w src =
     (case promiseBoth
             (fetchTeamSchedule (scheduleNetwork w src) src)
             (fetchTeamScoreboardEvents (scoreboardNetwork w src) (runtimeOf w)
                (clockScoreboardUrl w src) src) of
        Inl e \<Rightarrow> Inl e
      | Inr (schedule, scoreboardEvents) \<Rightarrow>
          (let normalizedSchedule =
                 normalizeTeamEvents (runtimeOf w) (clockSchedule w src)
                   (Some (case Option.bind schedule schedule_events of None \<Rightarrow> [] | Some es \<Rightarrow> es))
                   src;
               normalizedScoreboard =
                 normalizeTeamEvents (runtimeOf w) (clockScoreboard w src) (Some scoreboardEvents) src
           in Inr (mergeAndSortEvents (runtimeOf w) [normalizedSchedule, normalizedScoreboard])))"

definition fetchManchesterUnitedEvents :: "'el world \<Rightarrow> error + CalendarEventWithMeta list" where
  "fetchManchesterUnitedEvents w = fetchClubEvents w TEAM_MANCHESTER_UNITED"

definition fetchLeedsUnitedEvents :: "'el world \<Rightarrow> error + CalendarEventWithMeta list" where
  "fetchLeedsUnitedEvents w = fetchClubEvents w TEAM_LEEDS_UNITED"

definition fetchUfcEvents :: "'el world \<Rightarrow> error + CalendarEventWithMeta list" where
  "fetchUfcEvents w =
     (case buildUfcScoreboardUrl (runtimeOf w) (clockUfcUrl w) of
        Inl e \<Rightarrow> Inl e
      | Inr u \<Rightarrow>
          (case fetchJson (ufcNetwork w) u of
             Inl e \<Rightarrow> Inl e
           | Inr data \<Rightarrow> Inr (normalizeUfcEvents (runtimeOf w) (clockUfc w) data)))"

definition buildLiquipediaUrl :: string where
  "buildLiquipediaUrl =
     LIQUIPEDIA_ENDPOINT @ ''?action=parse&page=Legacy&prop=text&format=json&origin=*''"

definition fetchLegacyCs2Events :: "'el world \<Rightarrow> error + CalendarEventWithMeta list" where
  "fetchLegacyCs2Events w =
     (case fetchJson (liquipediaNetwork w) buildLiquipediaUrl of
        Inl e \<Rightarrow> Inl e
      | Inr data \<Rightarrow>
          (case Option.bind (Option.bind (liquipedia_parse data) parse_text) text_star of
             None \<Rightarrow> Inr []
           | Some html \<Rightarrow>
               if html = [] then Inr []
               else normalizeLegacyCs2Matches (domOf w) (runtimeOf w) (clockLegacy w) html))"

subsection \<open>The event service (lib/events-service.ts)\<close>

fun SORT_ORDER :: "CalendarSource \<Rightarrow> int" where
  "SORT_ORDER MANCHESTER_UNITED = 0"
| "SORT_ORDER LEEDS_UNITED = 1"
| "SORT_ORDER LEGACY_CS2 = 2"
| "SORT_ORDER UFC = 3"

text \<open>The comparator of \<open>sortEvents\<close>; \<open>dateComparison !== 0\<close> holds of NaN.\<close>

definition compareEvents ::
  "runtime \<Rightarrow> CalendarEventWithMeta \<Rightarrow> CalendarEventWithMeta \<Rightarrow> int option" where
  "compareEvents rt a b =
     (let dateComparison = minusNumber (getTime rt a) (getTime rt b)
      in if dateComparison \<noteq> Some 0 then dateComparison
         else Some (SORT_ORDER (source a) - SORT_ORDER (source b)))"

definition sortEvents :: "runtime \<Rightarrow> CalendarEventWithMeta list \<Rightarrow> CalendarEventWithMeta list" where
  "sortEvents rt events = toSorted (compareEvents rt) events"

definition getCalendarEvents :: "'el world \<Rightarrow> error + CalendarEventWithMeta list" where
  "getCalendarEvents w =
     (case promiseAll
             [fetchManchesterUnitedEvents w, fetchLeedsUnitedEvents w,
              fetchLegacyCs2Events w, fetchUfcEvents w] of
        Inl e \<Rightarrow> Inl e
      | Inr settled \<Rightarrow> Inr (sortEvents (runtimeOf w) (concat settled)))"

subsection \<open>The read endpoint (app/api/events/route.ts)\<close>

text \<open>
  The rest object \<open>publicFields\<close> of the destructuring
  \<open>const { venue, location, status, subtitle, ...publicFields } = event\<close> has every
  property of the event but the four named ones.
\<close>

definition publicFields :: "CalendarEventWithMeta \<Rightarrow> CalendarEventWithMeta" where
  "publicFields event = event\<lparr>venue := None, location := None, status := None, subtitle := None\<rparr>"

datatype payload = EventsPayload "CalendarEventWithMeta list" | ErrorPayload string

record NextResponse =
  response_body :: payload
  http_status :: nat

definition GET :: "'el world \<Rightarrow> NextResponse" where
  "GET w =
     (case getCalendarEvents w of
        Inr events \<Rightarrow> \<lparr>response_body = EventsPayload (map publicFields events), http_status = 200\<rparr>
      | Inl e \<Rightarrow> \<lparr>response_body = ErrorPayload ''Failed to load events'', http_status = 500\<rparr>)"

section \<open>The outcomes of the endpoints of a fetch\<close>

text \<open>
  What each endpoint of a club answered, in the order the loops try them: for the
  schedule the result of \<open>fetchJson\<close> on the endpoint, for the scoreboards the result of
  the \<open>try\<close> block, where \<open>clock i\<close> is the clock when the endpoint at index \<open>i\<close> is tried.
  \<open>successes\<close> are the bodies of those that answered, \<open>failures\<close> the errors of the others.
\<close>

definition successes :: "('e + 'a) list \<Rightarrow> 'a list" where
  "successes rs = concat (map (\<lambda>r. case r of Inl e \<Rightarrow> [] | Inr x \<Rightarrow> [x]) rs)"

definition failures :: "('e + 'a) list \<Rightarrow> 'e list" where
  "failures rs = concat (map (\<lambda>r. case r of Inl e \<Rightarrow> [e] | Inr x \<Rightarrow> []) rs)"

definition scheduleAttempts ::
  "RawTeamSchedule network \<Rightarrow> TeamSourceKey \<Rightarrow> (error + RawTeamSchedule) list" where
  "scheduleAttempts fetch src = map (fetchJson fetch) (endpoints (TEAM_SOURCES src))"

definition scoreboardAttemptsFrom ::
  "RawSoccerScoreboard network \<Rightarrow> runtime \<Rightarrow> (nat \<Rightarrow> int) \<Rightarrow> nat \<Rightarrow> string list
     \<Rightarrow> (error + RawSoccerScoreboard) list" where
  "scoreboardAttemptsFrom fetch rt clock i eps =
     map (\<lambda>(k, endpoint). scoreboardAttempt fetch rt (clock k) endpoint) (enumerate i eps)"

definition scoreboardAttempts ::
  "RawSoccerScoreboard network \<Rightarrow> runtime \<Rightarrow> (nat \<Rightarrow> int) \<Rightarrow> TeamSourceKey
     \<Rightarrow> (error + RawSoccerScoreboard) list" where
  "scoreboardAttempts fetch rt clock src =
     scoreboardAttemptsFrom fetch rt clock 0 (scoreboardEndpoints (TEAM_SOURCES src))"

section \<open>Concrete inputs\<close>

text \<open>
  The behaviour of the JavaScript runtime on the dates the examples below use, with the
  clock at 2025-06-15T12:00:00.000Z (UTC as the local time zone): the default window then
  runs from 2025-05-15T12:00Z to 2025-12-15T12:00Z, the legacy one from 2025-03-15T12:00Z
  to 2026-12-15T12:00Z.
\<close>

definition sampleNow :: int where
  "sampleNow = 1749988800000"

definition sampleRuntime :: runtime where
  "sampleRuntime =
     \<lparr>parseDate = (\<lambda>s.
        if s = ''2025-06-20T14:00:00.000Z'' \<or> s = ''2025-06-20T14:00Z'' then Some 1750428000000
        else if s = ''2025-06-21T19:30:00.000Z'' \<or> s = ''2025-06-21T19:30Z'' then Some 1750534200000
        else if s = ''2025-05-15T12:00:00.000Z'' \<or> s = ''2025-05-15T12:00Z'' then Some 1747310400000
        else if s = ''2025-05-14T12:00:00.000Z'' \<or> s = ''2025-05-14T12:00Z'' then Some 1747224000000
        else None),
      toISOString = (\<lambda>t.
        if t = 1750428000000 then ''2025-06-20T14:00:00.000Z''
        else if t = 1750534200000 then ''2025-06-21T19:30:00.000Z''
        else if t = 1747310400000 then ''2025-05-15T12:00:00.000Z''
        else if t = 1747224000000 then ''2025-05-14T12:00:00.000Z''
        else ''1970-01-01T00:00:00.000Z''),
      subMonths = (\<lambda>now n.
        if now = 1749988800000 \<and> n = 1 then Some 1747310400000
        else if now = 1749988800000 \<and> n = 3 then Some 1742040000000
        else None),
      addMonths = (\<lambda>now n.
        if now = 1749988800000 \<and> n = 6 then Some 1765800000000
        else if now = 1749988800000 \<and> n = 18 then Some 1797336000000
        else None),
      format_yyyyMMdd = (\<lambda>t.
        if t = 1747310400000 then ''20250515''
        else if t = 1765800000000 then ''20251215''
        else ''19700101''),
      newURL = (\<lambda>href base.
        if take 1 href = ''/'' then Inr (base @ href) else Inl (TypeError ''Invalid URL''))\<rparr>"

definition sampleEvent :: "string \<Rightarrow> CalendarSource \<Rightarrow> string \<Rightarrow> string \<Rightarrow> CalendarEventWithMeta" where
  "sampleEvent i src t start =
     \<lparr>id' = i, source = src, title = t, competition = None, fighters = None,
      startTimeUTC = start, result = None, outcome = None,
      venue = None, location = None, status = None, url = None, subtitle = None\<rparr>"

text \<open>A competitor with its team, and a raw club fixture with one competition.\<close>

definition competitorOf :: "string \<Rightarrow> string \<Rightarrow> HomeAway \<Rightarrow> string option \<Rightarrow> RawCompetitor" where
  "competitorOf tid name side sc =
     \<lparr>competitor_id = Some tid, competitor_homeAway = Some side,
      competitor_team = Some \<lparr>team_id = Some tid, team_displayName = Some name,
                              team_shortDisplayName = None, team_abbreviation = None\<rparr>,
      competitor_score = sc\<rparr>"

definition fixtureOf :: "string \<Rightarrow> string \<Rightarrow> RawCompetitor list \<Rightarrow> RawStatusType option \<Rightarrow> RawEvent" where
  "fixtureOf eid date cs st =
     \<lparr>event_id = Some eid, event_date = Some date, event_name = None, event_shortName = None,
      event_seasonType = None, event_season = None,
      event_competitions = Some
        [\<lparr>competition_date = Some date, competition_venue = None,
          competition_competitors = Some cs,
          competition_status = Some \<lparr>status_type = st\<rparr>\<rparr>],
      event_league = None\<rparr>"

text \<open>
  A small document tree in the place of \<open>node-html-parser\<close>: \<open>querySelectorAll\<close> with a
  tag name lists the descendants with that tag in document order, \<open>querySelector\<close> gives
  the first descendant with the tag, or with the attribute for \<open>[data-timestamp]\<close>, and
  \<open>textContent\<close> is the text below a node.
\<close>

datatype node = Element string "(string \<times> string) list" "node list" | TextNode string

fun descendants :: "node \<Rightarrow> node list" where
  "descendants (TextNode t) = []"
| "descendants (Element tag attrs cs) = concat (map (\<lambda>c. c # descendants c) cs)"

fun innerText :: "node \<Rightarrow> string" where
  "innerText (TextNode t) = t"
| "innerText (Element tag attrs cs) = concat (map innerText cs)"

fun tagOf :: "node \<Rightarrow> string option" where
  "tagOf (TextNode t) = None"
| "tagOf (Element tag attrs cs) = Some tag"

fun attrsOf :: "node \<Rightarrow> (string \<times> string) list" where
  "attrsOf (TextNode t) = []"
| "attrsOf (Element tag attrs cs) = attrs"

definition matchesSelector :: "string \<Rightarrow> node \<Rightarrow> bool" where
  "matchesSelector sel n =
     (if sel = ''[data-timestamp]'' then map_of (attrsOf n) ''data-timestamp'' \<noteq> None
      else tagOf n = Some sel)"

definition td :: "node list \<Rightarrow> node" where
  "td cs = Element ''td'' [] cs"

text \<open>A row of the match table of the page: date, tier, type, two icon cells, the
  tournament with its link, the score, and (in \<open>fullRow\<close> only) the opponent.\<close>

definition sevenCells :: "string \<Rightarrow> node list" where
  "sevenCells timestamp =
     [td [Element ''span'' [(''class'', ''timer-object''), (''data-timestamp'', timestamp)]
            [TextNode ''June 2025'']],
      td [TextNode ''A-Tier''],
      td [TextNode ''Online''],
      td [],
      td [],
      td [Element ''a'' [(''href'', ''/counterstrike/ESL_Challenger_League'')]
            [TextNode ''ESL Challenger League'']],
      td [TextNode ''2 : 1'']]"

definition fullRow :: node where
  "fullRow =
     Element ''tr'' [(''class'', ''recent-matches bg-win'')]
       (sevenCells ''1750428000'' @ [td [TextNode ''Team Alpha'']])"

definition shortRow :: node where
  "shortRow = Element ''tr'' [(''class'', ''match-row'')] (sevenCells ''1750534200'')"

definition samplePage :: node where
  "samplePage = Element ''div'' [] [Element ''table'' [] [Element ''tbody'' [] [fullRow, shortRow]]]"

definition sampleDom :: "node dom" where
  "sampleDom =
     \<lparr>parseHtml = (\<lambda>html. if html = ''<div>matches</div>'' then samplePage else Element ''div'' [] []),
      querySelectorAll = (\<lambda>n sel. filter (matchesSelector sel) (descendants n)),
      querySelector = (\<lambda>n sel. find (matchesSelector sel) (descendants n)),
      getAttribute = (\<lambda>n name. map_of (attrsOf n) name),
      textContent = innerText\<rparr>"

text \<open>Responses: a 200 with a body, and the worlds the examples run in. In
  \<open>sampleWorld\<close> every request succeeds: each club has one fixture on its schedule (for
  Leeds United on the second endpoint, the first having none), the scoreboards have no
  events, the promotion has one event, and the roster page has the two rows above.\<close>

definition okResponse :: "'a \<Rightarrow> 'a Response" where
  "okResponse body =
     \<lparr>response_ok = True, response_status = 200, response_statusText = ''OK'',
      response_json = Inr body\<rparr>"

definition postStatus :: "RawStatusType" where
  "postStatus = \<lparr>type_state = Some ''post'', type_detail = Some ''FT'',
                  type_description = Some ''Full Time''\<rparr>"

definition unitedFixture :: RawEvent where
  "unitedFixture =
     fixtureOf ''701'' ''2025-06-20T14:00Z''
       [competitorOf ''360'' ''Manchester United'' home (Some ''2''),
        competitorOf ''359'' ''Arsenal'' away (Some ''1'')]
       (Some postStatus)"

definition leedsFixture :: RawEvent where
  "leedsFixture =
     fixtureOf ''702'' ''2025-06-20T14:00Z''
       [competitorOf ''379'' ''Burnley'' home None,
        competitorOf ''357'' ''Leeds United'' away None]
       None"

definition sampleUfcEvent :: "string option \<Rightarrow> RawUfcEvent" where
  "sampleUfcEvent name =
     \<lparr>ufcEvent_id = Some ''600'', ufcEvent_date = Some ''2025-06-21T19:30Z'',
      ufcEvent_name = name, ufcEvent_shortName = None, ufcEvent_competitions = None\<rparr>"

definition sampleWorld :: "node world" where
  "sampleWorld =
     \<lparr>runtimeOf = sampleRuntime,
      domOf = sampleDom,
      scheduleNetwork = (\<lambda>src u.
        if u = ''https://site.api.espn.com/apis/site/v2/sports/soccer/eng.1/teams/360/schedule''
        then Inr (okResponse \<lparr>schedule_events = Some [unitedFixture]\<rparr>)
        else if u = ''https://site.api.espn.com/apis/site/v2/sports/soccer/eng.2/teams/357/schedule''
        then Inr (okResponse \<lparr>schedule_events = Some [leedsFixture]\<rparr>)
        else Inr (okResponse \<lparr>schedule_events = Some []\<rparr>)),
      scoreboardNetwork = (\<lambda>src u. Inr (okResponse \<lparr>scoreboard_events = Some []\<rparr>)),
      ufcNetwork = (\<lambda>u. Inr (okResponse \<lparr>ufc_events = Some [sampleUfcEvent (Some ''UFC 317'')]\<rparr>)),
      liquipediaNetwork = (\<lambda>u. Inr (okResponse
        \<lparr>liquipedia_parse = Some \<lparr>parse_text = Some \<lparr>text_star = Some ''<div>matches</div>''\<rparr>\<rparr>\<rparr>)),
      clockScoreboardUrl = (\<lambda>src i. sampleNow),
      clockSchedule = (\<lambda>src i. sampleNow),
      clockScoreboard = (\<lambda>src i. sampleNow),
      clockUfcUrl = sampleNow,
      clockUfc = (\<lambda>i. sampleNow),
      clockLegacy = (\<lambda>i. sampleNow)\<rparr>"

text \<open>The feed of the cycle in \<open>sampleWorld\<close>: three events at 14:00 on 20 June in the
  order of their sources, then two at 19:30 on 21 June.\<close>

definition sampleFeed :: "CalendarEventWithMeta list" where
  "sampleFeed =
     [\<lparr>id' = ''MANCHESTER_UNITED-701'', source = MANCHESTER_UNITED,
       title = ''Manchester United vs Arsenal'', competition = None, fighters = None,
       startTimeUTC = ''2025-06-20T14:00:00.000Z'', result = Some ''2 - 1'', outcome = Some WIN,
       venue = None, location = None, status = Some ''FT'', url = None,
       subtitle = Some ''Arsenal''\<rparr>,
      \<lparr>id' = ''LEEDS_UNITED-702'', source = LEEDS_UNITED,
       title = ''Leeds United @ Burnley'', competition = None, fighters = None,
       startTimeUTC = ''2025-06-20T14:00:00.000Z'', result = None, outcome = None,
       venue = None, location = None, status = None, url = None,
       subtitle = Some ''Burnley''\<rparr>,
      \<lparr>id' = ''LEGACY_CS2-1750428000'', source = LEGACY_CS2,
       title = ''Legacy vs Team Alpha'', competition = Some ''ESL Challenger League'',
       fighters = None, startTimeUTC = ''2025-06-20T14:00:00.000Z'', result = Some ''2 : 1'',
       outcome = Some WIN, venue = None, location = None,
       status = Some (''A-Tier'' @ MIDDLE_DOT @ ''Online''),
       url = Some ''https://liquipedia.net/counterstrike/ESL_Challenger_League'',
       subtitle = Some (''Team Alpha'' @ MIDDLE_DOT @ ''ESL Challenger League'')\<rparr>,
      \<lparr>id' = ''LEGACY_CS2-1750534200'', source = LEGACY_CS2,
       title = ''ESL Challenger League'', competition = Some ''ESL Challenger League'',
       fighters = None, startTimeUTC = ''2025-06-21T19:30:00.000Z'', result = Some ''2 : 1'',
       outcome = None, venue = None, location = None,
       status = Some (''A-Tier'' @ MIDDLE_DOT @ ''Online''),
       url = Some ''https://liquipedia.net/counterstrike/ESL_Challenger_League'',
       subtitle = Some ''ESL Challenger League''\<rparr>,
      \<lparr>id' = ''UFC-600'', source = UFC, title = ''UFC 317'', competition = None,
       fighters = None, startTimeUTC = ''2025-06-21T19:30:00.000Z'', result = None,
       outcome = None, venue = None, location = None, status = None, url = None,
       subtitle = None\<rparr>]"

text \<open>A concluded fixture whose two score strings are present and hold no number.\<close>

definition abandonedFixture :: RawEvent where
  "abandonedFixture =
     fixtureOf ''703'' ''2025-06-20T14:00Z''
       [competitorOf ''360'' ''Manchester United'' home (Some ''-''),
        competitorOf ''359'' ''Arsenal'' away (Some ''-'')]
       (Some \<lparr>type_state = Some ''post'', type_detail = Some ''Abandoned'',
               type_description = Some ''Abandoned''\<rparr>)"

text \<open>A concluded fixture without scores.\<close>

definition scorelessFixture :: RawEvent where
  "scorelessFixture =
     fixtureOf ''704'' ''2025-06-20T14:00Z''
       [competitorOf ''357'' ''Leeds United'' home None,
        competitorOf ''379'' ''Burnley'' away None]
       (Some postStatus)"

text \<open>Two networks for Leeds United, each with its first endpoint answering without
  anything for the club and its second endpoint failing: the schedule of the first
  league is empty and the second answers 503; the scoreboard of the first league lists a
  match of other clubs and the request for the second does not get through.\<close>

definition emptyThenDown :: "RawTeamSchedule network" where
  "emptyThenDown u =
     (if u = ''https://site.api.espn.com/apis/site/v2/sports/soccer/eng.1/teams/357/schedule''
      then Inr (okResponse \<lparr>schedule_events = Some []\<rparr>)
      else Inr \<lparr>response_ok = False, response_status = 503,
                response_statusText = ''Service Unavailable'',
                response_json = Inl (SyntaxError ''Unexpected token < in JSON'')\<rparr>)"

definition othersThenDown :: "RawSoccerScoreboard network" where
  "othersThenDown u =
     (if u = ''https://site.api.espn.com/apis/site/v2/sports/soccer/eng.1/scoreboard?limit=200&dates=20250515-20251215''
      then Inr (okResponse \<lparr>scoreboard_events = Some [unitedFixture]\<rparr>)
      else Inl (TypeError ''fetch failed''))"


definition ufcDownWorld :: "node world" where
  "ufcDownWorld = sampleWorld\<lparr>ufcNetwork := (\<lambda>u. Inl (TypeError ''fetch failed''))\<rparr>"

section \<open>Sorting and the map\<close>

lemma set_insertSorted: "set (insertSorted c x ys) = insert x (set ys)"
  by (induction ys) auto

lemma set_toSorted: "set (toSorted c xs) = set xs"
  unfolding toSorted_def by (induction xs) (auto simp: set_insertSorted)

lemma distinct_map_insertSorted:
  "distinct (map f (insertSorted c x ys)) = (f x \<notin> f ` set ys \<and> distinct (map f ys))"
  by (induction ys) (auto simp: set_insertSorted)

lemma toSorted_Cons: "toSorted c (x # xs) = insertSorted c x (toSorted c xs)"
  by (simp add: toSorted_def)

lemma distinct_map_toSorted: "distinct (map f (toSorted c xs)) = distinct (map f xs)"
proof (induction xs)
  case Nil
  show ?case by (simp add: toSorted_def)
next
  case (Cons x xs)
  then show ?case
    by (simp add: toSorted_Cons distinct_map_insertSorted set_toSorted)
qed

lemma length_insertSorted: "length (insertSorted c x ys) = Suc (length ys)"
  by (induction ys) auto

lemma length_toSorted: "length (toSorted c xs) = length xs"
  unfolding toSorted_def by (induction xs) (auto simp: length_insertSorted)

lemma map_of_mapSet: "map_of (mapSet m k v) = (map_of m)(k \<mapsto> v)"
  by (induction m) (auto simp: fun_eq_iff)

lemma keys_mapSet: "fst ` set (mapSet m k v) = insert k (fst ` set m)"
proof (induction m)
  case Nil
  show ?case by simp
next
  case (Cons p m)
  obtain k' v' where p: "p = (k', v')" by (cases p)
  show ?case
  proof (cases "k' = k")
    case True
    then show ?thesis by (simp add: p)
  next
    case False
    then show ?thesis using Cons by (simp add: p insert_commute)
  qed
qed

lemma distinct_mapSet: "distinct (map fst m) \<Longrightarrow> distinct (map fst (mapSet m k v))"
proof (induction m)
  case Nil
  show ?case by simp
next
  case (Cons p m)
  obtain k' v' where p: "p = (k', v')" by (cases p)
  show ?case
  proof (cases "k' = k")
    case True
    then show ?thesis using Cons.prems by (simp add: p)
  next
    case False
    have "k' \<notin> fst ` set (mapSet m k v)"
      using Cons.prems False by (simp add: keys_mapSet p)
    then show ?thesis using Cons False by (simp add: p)
  qed
qed

lemma filter_id_nonempty: "(filter (\<lambda>x. f x = k) xs \<noteq> []) = (k \<in> f ` set xs)"
  by (induction xs) auto

lemma last_filter_sat: "filter P xs \<noteq> [] \<Longrightarrow> P (last (filter P xs))"
  using last_in_set [of "filter P xs"] by simp

lemma last_filter_mem: "filter P xs \<noteq> [] \<Longrightarrow> last (filter P xs) \<in> set xs"
  using last_in_set [of "filter P xs"] by simp

lemma setAll_Cons: "setAll m (x # xs) = setAll (mapSet m (id' x) x) xs"
  by (simp add: setAll_def)

lemma setAll_append: "setAll m (xs @ ys) = setAll (setAll m xs) ys"
  by (simp add: setAll_def)

lemma foldl_setAll: "foldl setAll m sources = setAll m (concat sources)"
  by (induction sources arbitrary: m) (simp_all add: setAll_append, simp add: setAll_def)

lemma dedupe_concat: "dedupe sources = setAll [] (concat sources)"
  by (simp add: dedupe_def foldl_setAll)

lemma setAll_distinct: "distinct (map fst m) \<Longrightarrow> distinct (map fst (setAll m xs))"
proof (induction xs arbitrary: m)
  case Nil
  then show ?case by (simp add: setAll_def)
next
  case (Cons x xs)
  show ?case
    unfolding setAll_Cons by (rule Cons.IH) (rule distinct_mapSet [OF Cons.prems])
qed

lemma setAll_keys: "fst ` set (setAll m xs) = fst ` set m \<union> id' ` set xs"
proof (induction xs arbitrary: m)
  case Nil
  then show ?case by (simp add: setAll_def)
next
  case (Cons x xs)
  show ?case
    unfolding setAll_Cons Cons.IH by (simp add: keys_mapSet)
qed

lemma setAll_lookup:
  "map_of (setAll m xs) k =
     (if k \<in> id' ` set xs then Some (last (filter (\<lambda>x. id' x = k) xs)) else map_of m k)"
proof (induction xs arbitrary: m)
  case Nil
  then show ?case by (simp add: setAll_def)
next
  case (Cons x xs)
  show ?case
  proof (cases "k \<in> id' ` set xs")
    case True
    then have ne: "filter (\<lambda>x. id' x = k) xs \<noteq> []"
      by (simp add: filter_id_nonempty)
    show ?thesis
      unfolding setAll_Cons Cons.IH using True ne by simp
  next
    case notin: False
    then have e: "filter (\<lambda>x. id' x = k) xs = []"
      using filter_id_nonempty [of id' k xs] by simp
    show ?thesis
    proof (cases "k = id' x")
      case True
      have "filter (\<lambda>y. id' y = id' x) xs = []" using e True by simp
      then show ?thesis
        unfolding setAll_Cons Cons.IH using notin True by (simp add: map_of_mapSet)
    next
      case False
      then show ?thesis
        unfolding setAll_Cons Cons.IH using notin by (simp add: map_of_mapSet)
    qed
  qed
qed

lemma setAll_entries:
  assumes "(k, v) \<in> set (setAll [] ys)"
  shows "v = last (filter (\<lambda>x. id' x = k) ys) \<and> id' v = k \<and> v \<in> set ys"
proof -
  have dist: "distinct (map fst (setAll [] ys))"
    by (rule setAll_distinct) simp
  have "k \<in> fst ` set (setAll [] ys)"
    using assms by (metis fst_conv image_eqI)
  then have kin: "k \<in> id' ` set ys"
    by (simp add: setAll_keys)
  have "map_of (setAll [] ys) k = Some v"
    using assms dist by simp
  then have v: "v = last (filter (\<lambda>x. id' x = k) ys)"
    using kin by (simp add: setAll_lookup)
  have ne: "filter (\<lambda>x. id' x = k) ys \<noteq> []"
    using kin by (simp add: filter_id_nonempty)
  have "id' v = k"
    using last_filter_sat [OF ne] v by simp
  moreover have "v \<in> set ys"
    using last_filter_mem [OF ne] v by simp
  ultimately show ?thesis using v by blast
qed

lemma setAll_values_ids: "map id' (mapValues (setAll [] ys)) = map fst (setAll [] ys)"
proof -
  have "id' (snd p) = fst p" if "p \<in> set (setAll [] ys)" for p
  proof -
    from that have "(fst p, snd p) \<in> set (setAll [] ys)" by simp
    from setAll_entries [OF this] show ?thesis by blast
  qed
  then show ?thesis by (simp add: mapValues_def)
qed

lemma mergeAndSortEvents_alt:
  "mergeAndSortEvents rt sources = toSorted (byTime rt) (mapValues (setAll [] (concat sources)))"
  by (simp add: mergeAndSortEvents_def dedupe_concat)

lemma merge_distinct: "distinct (map id' (mergeAndSortEvents rt sources))"
  unfolding mergeAndSortEvents_alt distinct_map_toSorted setAll_values_ids
  by (rule setAll_distinct) simp

lemma merge_ids: "id' ` set (mergeAndSortEvents rt sources) = id' ` set (concat sources)"
proof -
  have "id' ` set (mergeAndSortEvents rt sources) =
        set (map id' (mapValues (setAll [] (concat sources))))"
    unfolding mergeAndSortEvents_alt by (simp add: set_toSorted)
  also have "\<dots> = fst ` set (setAll [] (concat sources))"
    unfolding setAll_values_ids by simp
  finally show ?thesis by (simp add: setAll_keys)
qed

lemma merge_last:
  assumes "e \<in> set (mergeAndSortEvents rt sources)"
  shows "e = last (filter (\<lambda>x. id' x = id' e) (concat sources)) \<and> e \<in> set (concat sources)"
proof -
  from assms have "e \<in> snd ` set (setAll [] (concat sources))"
    unfolding mergeAndSortEvents_alt by (simp add: set_toSorted mapValues_def)
  then obtain k where "(k, e) \<in> set (setAll [] (concat sources))"
    by force
  from setAll_entries [OF this]
  have 1: "e = last (filter (\<lambda>x. id' x = k) (concat sources))"
    and 2: "id' e = k" and 3: "e \<in> set (concat sources)"
    by blast+
  from 1 have "e = last (filter (\<lambda>x. id' x = id' e) (concat sources))"
    unfolding 2 .
  then show ?thesis using 3 by (rule conjI)
qed

lemma merge_later:
  assumes "e \<in> set (mergeAndSortEvents rt sources)" "sources = before @ after"
    "id' e \<in> id' ` set (concat after)"
  shows "e = last (filter (\<lambda>x. id' x = id' e) (concat after))"
proof -
  have ne: "filter (\<lambda>x. id' x = id' e) (concat after) \<noteq> []"
    using assms(3) by (simp only: filter_id_nonempty)
  have "e = last (filter (\<lambda>x. id' x = id' e) (concat before) @ filter (\<lambda>x. id' x = id' e) (concat after))"
    using merge_last [OF assms(1)] assms(2) by simp
  then show ?thesis using ne by simp
qed

text \<open>
  C6. Merging lists of canonical events deduplicates by id, the last write winning: the
  ids of the output are pairwise distinct and are exactly the ids of the inputs; the
  entry kept for an id is the last entry with that id in the lists taken in order; so,
  however the lists are split into earlier and later ones, an id that occurs in a
  later list is kept with a later list's entry.
\<close>

theorem mergeAndSortEvents_last_write_wins:
  "distinct (map id' (mergeAndSortEvents rt sources)) \<and>
   id' ` set (mergeAndSortEvents rt sources) = id' ` set (concat sources) \<and>
   (\<forall>e \<in> set (mergeAndSortEvents rt sources).
      e = last (filter (\<lambda>x. id' x = id' e) (concat sources)) \<and>
      (\<forall>before after. sources = before @ after \<and> id' e \<in> id' ` set (concat after) \<longrightarrow>
         e = last (filter (\<lambda>x. id' x = id' e) (concat after))))"
proof (intro conjI ballI allI impI)
  show "distinct (map id' (mergeAndSortEvents rt sources))"
    by (rule merge_distinct)
  show "id' ` set (mergeAndSortEvents rt sources) = id' ` set (concat sources)"
    by (rule merge_ids)
next
  fix e assume e: "e \<in> set (mergeAndSortEvents rt sources)"
  show "e = last (filter (\<lambda>x. id' x = id' e) (concat sources))"
    using merge_last [OF e] by (rule conjunct1)
  fix before after
  assume "sources = before @ after \<and> id' e \<in> id' ` set (concat after)"
  then show "e = last (filter (\<lambda>x. id' x = id' e) (concat after))"
    using merge_later [OF e] by blast
qed

theorem mergeAndSortEvents_last_write_wins_witness:
  "sampleEvent ''LEEDS_UNITED-401'' LEEDS_UNITED ''Leeds United vs Burnley'' ''2025-06-20T14:00:00.000Z''
     \<in> set (mergeAndSortEvents sampleRuntime
         [[sampleEvent ''LEEDS_UNITED-401'' LEEDS_UNITED ''Leeds United vs TBD'' ''2025-06-20T14:00:00.000Z''],
          [sampleEvent ''LEEDS_UNITED-401'' LEEDS_UNITED ''Leeds United vs Burnley'' ''2025-06-20T14:00:00.000Z'']]) \<and>
   map title (mergeAndSortEvents sampleRuntime
         [[sampleEvent ''LEEDS_UNITED-401'' LEEDS_UNITED ''Leeds United vs TBD'' ''2025-06-20T14:00:00.000Z''],
          [sampleEvent ''LEEDS_UNITED-401'' LEEDS_UNITED ''Leeds United vs Burnley'' ''2025-06-20T14:00:00.000Z'']])
     = [''Leeds United vs Burnley'']"
proof -
  let ?old = "sampleEvent ''LEEDS_UNITED-401'' LEEDS_UNITED ''Leeds United vs TBD'' ''2025-06-20T14:00:00.000Z''"
  let ?new = "sampleEvent ''LEEDS_UNITED-401'' LEEDS_UNITED ''Leeds United vs Burnley'' ''2025-06-20T14:00:00.000Z''"
  have run: "mergeAndSortEvents sampleRuntime [[?old], [?new]] = [?new]"
    by (simp add: mergeAndSortEvents_def dedupe_def setAll_def mapValues_def toSorted_def sampleEvent_def)
  have mem: "?new \<in> set (mergeAndSortEvents sampleRuntime [[?old], [?new]])"
    by (simp add: run)
  have split: "[[?old], [?new]] = [[?old]] @ [[?new]] \<and> id' ?new \<in> id' ` set (concat [[?new]])"
    by simp
  have "?new = last (filter (\<lambda>x. id' x = id' ?new) (concat [[?new]]))"
    using mergeAndSortEvents_last_write_wins [of sampleRuntime "[[?old], [?new]]"] mem split
    by blast
  then show ?thesis using run by (simp add: sampleEvent_def)
qed

section \<open>What the normalizers emit\<close>

lemma isWithinWindow_iff:
  "isWithinWindow rt now s ahead behind =
     (\<exists>t lo hi. parseDate rt s = Some t \<and> subMonths rt now behind = Some lo \<and>
        addMonths rt now ahead = Some hi \<and> lo \<le> t \<and> t \<le> hi)"
  by (auto simp: isWithinWindow_def split: option.splits)

lemma startTimeUTC_teamEventOf [simp]: "startTimeUTC (teamEventOf src event st) = st"
  by (simp add: teamEventOf_def Let_def)

lemma normalizeTeamEvent_eq:
  assumes "normalizeTeamEvent rt now src event = Some e"
  shows "e = teamEventOf src event (startTimeUTC e)"
  using assms by (auto simp: normalizeTeamEvent_def split: option.splits if_splits)

lemma normalizeTeamEvent_Some:
  assumes "normalizeTeamEvent rt now src event = Some e"
  shows "toISO rt (rawDateOf event) = Some (startTimeUTC e) \<and> startTimeUTC e \<noteq> [] \<and>
         isWithinDefaultWindow rt now (startTimeUTC e)"
  using assms by (auto simp: normalizeTeamEvent_def split: option.splits if_splits)


lemma ex_less_Suc_split: "(\<exists>k < Suc n. P k) = (P 0 \<or> (\<exists>k < n. P (Suc k)))"
  by (auto simp: less_Suc_eq_0_disj)

lemma normalizeTeamEventsFrom_mem:
  "(e \<in> set (normalizeTeamEventsFrom rt clock src i evs)) =
     (\<exists>k < length evs. normalizeTeamEvent rt (clock (i + k)) src (evs ! k) = Some e)"
proof (induction evs arbitrary: i)
  case Nil
  show ?case by simp
next
  case (Cons ev evs)
  show ?case
    by (auto simp: Cons.IH ex_less_Suc_split split: option.splits)
qed

lemma startTimeUTC_ufcEventOf [simp]: "startTimeUTC (ufcEventOf event eid st) = st"
  by (simp add: ufcEventOf_def Let_def)

lemma normalizeUfcEvent_Some:
  assumes "normalizeUfcEvent rt now event eid = Some e"
  shows "toISO rt (ufcRawDateOf event) = Some (startTimeUTC e) \<and> startTimeUTC e \<noteq> [] \<and>
         isWithinDefaultWindow rt now (startTimeUTC e)"
  using assms by (auto simp: normalizeUfcEvent_def split: option.splits if_splits)


lemma normalizeUfcEventsFrom_mem:
  "e \<in> set (normalizeUfcEventsFrom rt clock i seen evs) \<Longrightarrow>
     \<exists>k < length evs. \<exists>eid. ufcEvent_id (evs ! k) = Some eid \<and> eid \<noteq> [] \<and>
        normalizeUfcEvent rt (clock (i + k)) (evs ! k) eid = Some e"
proof (induction evs arbitrary: i seen)
  case Nil
  then show ?case by simp
next
  case (Cons ev evs)
  from Cons.prems have
    "(\<exists>eid. ufcEvent_id ev = Some eid \<and> eid \<noteq> [] \<and> normalizeUfcEvent rt (clock i) ev eid = Some e)
     \<or> (\<exists>seen'. e \<in> set (normalizeUfcEventsFrom rt clock (Suc i) seen' evs))"
    by (auto split: option.splits if_splits)
  then show ?case
  proof
    assume "\<exists>eid. ufcEvent_id ev = Some eid \<and> eid \<noteq> [] \<and> normalizeUfcEvent rt (clock i) ev eid = Some e"
    then show ?thesis by (simp add: ex_less_Suc_split)
  next
    assume "\<exists>seen'. e \<in> set (normalizeUfcEventsFrom rt clock (Suc i) seen' evs)"
    then obtain seen' where "e \<in> set (normalizeUfcEventsFrom rt clock (Suc i) seen' evs)" ..
    from Cons.IH [OF this] show ?thesis by (simp add: ex_less_Suc_split)
  qed
qed


lemma startTimeUTC_legacyEventOf [simp]: "startTimeUTC (legacyEventOf lib row ta st cells link) = st"
  by (simp add: legacyEventOf_def Let_def)

lemma legacyEventOfRow_eq:
  assumes "legacyEventOfRow lib rt seen row ta st cells = Inr (Some e)"
  shows "\<exists>link. e = legacyEventOf lib row ta st cells link"
  using assms
  by (auto simp: legacyEventOfRow_def split: sum.splits if_splits)

lemma legacyEventOfRow_Some:
  assumes "legacyEventOfRow lib rt seen row ta st cells = Inr (Some e)"
  shows "startTimeUTC e = st"
  using legacyEventOfRow_eq [OF assms] by auto

lemma normalizeLegacyRow_Some:
  assumes "normalizeLegacyRow lib rt now seen row = Inr (Some e)"
  shows "\<exists>a secs. timestampAttrOf lib row = Some a \<and> a \<noteq> [] \<and> parseInt10 a = Some secs \<and>
           \<bar>secs * 1000\<bar> \<le> 8640000000000000 \<and>
           startTimeUTC e = toISOString rt (secs * 1000) \<and> startTimeUTC e \<noteq> [] \<and>
           isWithinWindow rt now (startTimeUTC e) LEGACY_RANGE_MONTHS_AHEAD LEGACY_RANGE_MONTHS_BEHIND \<and>
           7 \<le> length (querySelectorAll lib row ''td'') \<and>
           legacyEventOfRow lib rt seen row (Some a) (startTimeUTC e) (querySelectorAll lib row ''td'')
             = Inr (Some e)"
proof -
  from assms obtain a where a: "timestampAttrOf lib row = Some a" "a \<noteq> []"
    by (cases "timestampAttrOf lib row")
       (auto simp: normalizeLegacyRow_def Let_def truthy_def split: if_splits)
  from assms a obtain secs where secs: "parseInt10 a = Some secs"
    by (cases "parseInt10 a") (auto simp: normalizeLegacyRow_def Let_def truthy_def)
  from assms a secs have ok: "\<bar>secs * 1000\<bar> \<le> 8640000000000000"
    by (auto simp: normalizeLegacyRow_def Let_def truthy_def dateToISOString_def split: if_splits)
  let ?st = "toISOString rt (secs * 1000)"
  from assms a secs ok have rest:
    "?st \<noteq> [] \<and> isWithinWindow rt now ?st LEGACY_RANGE_MONTHS_AHEAD LEGACY_RANGE_MONTHS_BEHIND \<and>
     7 \<le> length (querySelectorAll lib row ''td'') \<and>
     legacyEventOfRow lib rt seen row (Some a) ?st (querySelectorAll lib row ''td'') = Inr (Some e)"
    by (auto simp: normalizeLegacyRow_def Let_def truthy_def dateToISOString_def split: if_splits)
  then have "legacyEventOfRow lib rt seen row (Some a) ?st (querySelectorAll lib row ''td'') = Inr (Some e)"
    by simp
  then have "startTimeUTC e = ?st"
    by (rule legacyEventOfRow_Some)
  with a secs ok rest show ?thesis by auto
qed

lemma normalizeLegacyRows_mem:
  "normalizeLegacyRows lib rt clock i seen rows = Inr es \<Longrightarrow> e \<in> set es \<Longrightarrow>
     \<exists>k < length rows. \<exists>seen'. normalizeLegacyRow lib rt (clock (i + k)) seen' (rows ! k) = Inr (Some e)"
proof (induction rows arbitrary: i seen es)
  case Nil
  then show ?case by simp
next
  case (Cons row rows)
  show ?case
  proof (cases "normalizeLegacyRow lib rt (clock i) seen row")
    case (Inl err)
    with Cons.prems show ?thesis by simp
  next
    case (Inr r)
    show ?thesis
    proof (cases r)
      case None
      with Inr Cons.prems have "normalizeLegacyRows lib rt clock (Suc i) seen rows = Inr es"
        by simp
      from Cons.IH [OF this Cons.prems(2)] show ?thesis by (simp add: ex_less_Suc_split)
    next
      case (Some e0)
      with Inr Cons.prems obtain es' where
        es': "normalizeLegacyRows lib rt clock (Suc i) (insert (id' e0) seen) rows = Inr es'"
          "es = e0 # es'"
        by (auto split: sum.splits)
      show ?thesis
      proof (cases "e = e0")
        case True
        with Inr Some show ?thesis by (auto simp: ex_less_Suc_split)
      next
        case False
        with es' Cons.prems(2) have "e \<in> set es'" by simp
        from Cons.IH [OF es'(1) this] show ?thesis by (simp add: ex_less_Suc_split)
      qed
    qed
  qed
qed

section \<open>The aggregation cycle\<close>

lemma isWithinWindow_valid: "isWithinWindow rt now s ahead behind \<Longrightarrow> parseDate rt s \<noteq> None"
  by (auto simp: isWithinWindow_iff)

lemma normalizeTeamEvents_valid:
  assumes "e \<in> set (normalizeTeamEvents rt clock events src)"
  shows "getTime rt e \<noteq> None"
proof -
  from assms obtain now ev where "normalizeTeamEvent rt now src ev = Some e"
    unfolding normalizeTeamEvents_def normalizeTeamEventsFrom_mem by blast
  from normalizeTeamEvent_Some [OF this] show ?thesis
    by (auto simp: getTime_def isWithinDefaultWindow_def dest: isWithinWindow_valid)
qed

lemma normalizeUfcEvents_valid:
  assumes "e \<in> set (normalizeUfcEvents rt clock data)"
  shows "getTime rt e \<noteq> None"
proof -
  from normalizeUfcEventsFrom_mem [OF assms [unfolded normalizeUfcEvents_def]]
  obtain now ev eid where "normalizeUfcEvent rt now ev eid = Some e"
    by blast
  from normalizeUfcEvent_Some [OF this] show ?thesis
    by (auto simp: getTime_def isWithinDefaultWindow_def dest: isWithinWindow_valid)
qed

lemma normalizeLegacyCs2Matches_valid:
  assumes "normalizeLegacyCs2Matches lib rt clock html = Inr es" "e \<in> set es"
  shows "getTime rt e \<noteq> None"
proof -
  from normalizeLegacyRows_mem [OF assms(1) [unfolded normalizeLegacyCs2Matches_def] assms(2)]
  obtain now seen' row where "normalizeLegacyRow lib rt now seen' row = Inr (Some e)"
    by blast
  from normalizeLegacyRow_Some [OF this] show ?thesis
    by (auto simp: getTime_def dest: isWithinWindow_valid)
qed

lemma fetchClubEvents_valid:
  assumes "fetchClubEvents w src = Inr es" "e \<in> set es"
  shows "getTime (runtimeOf w) e \<noteq> None"
proof -
  from assms(1) obtain xs ys ev1 ev2 where
    es: "es = mergeAndSortEvents (runtimeOf w)
           [normalizeTeamEvents (runtimeOf w) xs ev1 src, normalizeTeamEvents (runtimeOf w) ys ev2 src]"
    by (auto simp: fetchClubEvents_def Let_def split: sum.splits prod.splits)
  from assms(2) have "e \<in> set (concat [normalizeTeamEvents (runtimeOf w) xs ev1 src,
                                       normalizeTeamEvents (runtimeOf w) ys ev2 src])"
    unfolding es using merge_last by blast
  then show ?thesis using normalizeTeamEvents_valid by auto
qed

lemma fetchUfcEvents_valid:
  assumes "fetchUfcEvents w = Inr es" "e \<in> set es"
  shows "getTime (runtimeOf w) e \<noteq> None"
  using assms normalizeUfcEvents_valid
  by (auto simp: fetchUfcEvents_def split: sum.splits)

lemma fetchLegacyCs2Events_valid:
  assumes "fetchLegacyCs2Events (w :: 'el world) = Inr es" "e \<in> set es"
  shows "getTime (runtimeOf w) e \<noteq> None"
  using assms normalizeLegacyCs2Matches_valid [of "domOf w" "runtimeOf w" "clockLegacy w" _ es e]
  by (auto simp: fetchLegacyCs2Events_def split: sum.splits option.splits if_splits)

lemma getCalendarEvents_Inr:
  assumes "getCalendarEvents w = Inr feed"
  shows "\<exists>a b c d. fetchManchesterUnitedEvents w = Inr a \<and> fetchLeedsUnitedEvents w = Inr b \<and>
           fetchLegacyCs2Events w = Inr c \<and> fetchUfcEvents w = Inr d \<and>
           feed = sortEvents (runtimeOf w) (a @ b @ c @ d)"
  using assms by (auto simp: getCalendarEvents_def split: sum.splits)

lemma getCalendarEvents_Inl:
  "(\<exists>e. getCalendarEvents w = Inl e) =
     ((\<exists>e. fetchManchesterUnitedEvents w = Inl e) \<or> (\<exists>e. fetchLeedsUnitedEvents w = Inl e) \<or>
      (\<exists>e. fetchLegacyCs2Events w = Inl e) \<or> (\<exists>e. fetchUfcEvents w = Inl e))"
  by (auto simp: getCalendarEvents_def split: sum.splits)

lemma feed_valid:
  assumes "getCalendarEvents w = Inr feed" "e \<in> set feed"
  shows "getTime (runtimeOf w) e \<noteq> None"
proof -
  from getCalendarEvents_Inr [OF assms(1)] obtain a b c d where
    f: "fetchManchesterUnitedEvents w = Inr a" "fetchLeedsUnitedEvents w = Inr b"
       "fetchLegacyCs2Events w = Inr c" "fetchUfcEvents w = Inr d"
       "feed = sortEvents (runtimeOf w) (a @ b @ c @ d)"
    by blast
  from assms(2) f(5) have "e \<in> set a \<or> e \<in> set b \<or> e \<in> set c \<or> e \<in> set d"
    by (auto simp: sortEvents_def set_toSorted)
  then show ?thesis
    using f(1-4) fetchClubEvents_valid fetchUfcEvents_valid fetchLegacyCs2Events_valid
    unfolding fetchManchesterUnitedEvents_def fetchLeedsUnitedEvents_def by blast
qed

lemma compareEvents_le:
  assumes "getTime rt a = Some ta" "getTime rt b = Some tb"
  shows "(sortCompare (compareEvents rt) a b \<le> 0) =
           (ta < tb \<or> (ta = tb \<and> SORT_ORDER (source a) \<le> SORT_ORDER (source b)))"
  using assms by (auto simp: sortCompare_def compareEvents_def minusNumber_def Let_def)

lemma sorted_insertSorted:
  assumes tot: "\<And>a b. a \<in> S \<Longrightarrow> b \<in> S \<Longrightarrow> sortCompare c a b \<le> 0 \<or> sortCompare c b a \<le> 0"
    and trans: "\<And>a b d. a \<in> S \<Longrightarrow> b \<in> S \<Longrightarrow> d \<in> S \<Longrightarrow>
                  sortCompare c a b \<le> 0 \<Longrightarrow> sortCompare c b d \<le> 0 \<Longrightarrow> sortCompare c a d \<le> 0"
    and "x \<in> S" "set ys \<subseteq> S" "sorted_wrt (\<lambda>a b. sortCompare c a b \<le> 0) ys"
  shows "sorted_wrt (\<lambda>a b. sortCompare c a b \<le> 0) (insertSorted c x ys)"
  using assms(3-)
proof (induction ys)
  case Nil
  then show ?case by simp
next
  case (Cons y ys)
  show ?case
  proof (cases "sortCompare c x y \<le> 0")
    case True
    have "sortCompare c x z \<le> 0" if "z \<in> set ys" for z
      using trans [of x y z] True Cons.prems that by auto
    then show ?thesis using True Cons.prems by simp
  next
    case False
    then have yx: "sortCompare c y x \<le> 0"
      using tot [of x y] Cons.prems by auto
    have "sorted_wrt (\<lambda>a b. sortCompare c a b \<le> 0) (insertSorted c x ys)"
      using Cons by simp
    then show ?thesis using False yx Cons.prems by (simp add: set_insertSorted)
  qed
qed

lemma sorted_toSorted:
  assumes tot: "\<And>a b. a \<in> S \<Longrightarrow> b \<in> S \<Longrightarrow> sortCompare c a b \<le> 0 \<or> sortCompare c b a \<le> 0"
    and trans: "\<And>a b d. a \<in> S \<Longrightarrow> b \<in> S \<Longrightarrow> d \<in> S \<Longrightarrow>
                  sortCompare c a b \<le> 0 \<Longrightarrow> sortCompare c b d \<le> 0 \<Longrightarrow> sortCompare c a d \<le> 0"
    and "set xs \<subseteq> S"
  shows "sorted_wrt (\<lambda>a b. sortCompare c a b \<le> 0) (toSorted c xs)"
  using assms(3)
proof (induction xs)
  case Nil
  show ?case by (simp add: toSorted_def)
next
  case (Cons x xs)
  show ?case
    unfolding toSorted_Cons
    by (rule sorted_insertSorted [where S = S, OF tot trans])
       (use Cons in \<open>auto simp: set_toSorted\<close>)
qed

lemma sortEvents_sorted:
  assumes "\<And>e. e \<in> set xs \<Longrightarrow> getTime rt e \<noteq> None"
  shows "sorted_wrt (\<lambda>a b. sortCompare (compareEvents rt) a b \<le> 0) (sortEvents rt xs)"
  unfolding sortEvents_def
proof (rule sorted_toSorted [where S = "{e. getTime rt e \<noteq> None}"])
  fix a b assume "a \<in> {e. getTime rt e \<noteq> None}" "b \<in> {e. getTime rt e \<noteq> None}"
  then obtain ta tb where "getTime rt a = Some ta" "getTime rt b = Some tb" by auto
  then show "sortCompare (compareEvents rt) a b \<le> 0 \<or> sortCompare (compareEvents rt) b a \<le> 0"
    by (auto simp: compareEvents_le)
next
  fix a b d
  assume "a \<in> {e. getTime rt e \<noteq> None}" "b \<in> {e. getTime rt e \<noteq> None}"
    "d \<in> {e. getTime rt e \<noteq> None}"
  then obtain ta tb td where t: "getTime rt a = Some ta" "getTime rt b = Some tb" "getTime rt d = Some td"
    by auto
  assume "sortCompare (compareEvents rt) a b \<le> 0" "sortCompare (compareEvents rt) b d \<le> 0"
  then show "sortCompare (compareEvents rt) a d \<le> 0"
    using t by (auto simp: compareEvents_le)
next
  show "set xs \<subseteq> {e. getTime rt e \<noteq> None}" using assms by auto
qed

lemma sampleWorld_feed: "getCalendarEvents sampleWorld = Inr sampleFeed"
  by code_simp

text \<open>
  C7. In the feed of a cycle that succeeds, every event has a start time that parses, and
  for any two positions \<open>i\<close> and \<open>j\<close>: if the event at \<open>i\<close> starts strictly earlier than the
  one at \<open>j\<close>, it precedes it (\<open>i < j\<close>); if the two start at the same instant and the
  source of the one at \<open>i\<close> has the lower rank, it precedes it. The ranks are
  MANCHESTER_UNITED < LEEDS_UNITED < LEGACY_CS2 < UFC.
\<close>

theorem feed_sorted_by_time_then_source:
  assumes "getCalendarEvents w = Inr feed" "i < length feed" "j < length feed"
  shows "\<exists>ti tj. getTime (runtimeOf w) (feed ! i) = Some ti \<and> getTime (runtimeOf w) (feed ! j) = Some tj \<and>
           (ti < tj \<longrightarrow> i < j) \<and>
           (ti = tj \<and> SORT_ORDER (source (feed ! i)) < SORT_ORDER (source (feed ! j)) \<longrightarrow> i < j) \<and>
           SORT_ORDER MANCHESTER_UNITED < SORT_ORDER LEEDS_UNITED \<and>
           SORT_ORDER LEEDS_UNITED < SORT_ORDER LEGACY_CS2 \<and>
           SORT_ORDER LEGACY_CS2 < SORT_ORDER UFC"
proof -
  let ?rt = "runtimeOf w"
  have valid: "getTime ?rt e \<noteq> None" if "e \<in> set feed" for e
    using feed_valid [OF assms(1) that] .
  from valid [of "feed ! i"] valid [of "feed ! j"] assms(2,3)
  obtain ti tj where t: "getTime ?rt (feed ! i) = Some ti" "getTime ?rt (feed ! j) = Some tj"
    by auto
  from getCalendarEvents_Inr [OF assms(1)] obtain xs where xs: "feed = sortEvents ?rt xs"
    by blast
  have "set xs = set feed" by (simp add: xs sortEvents_def set_toSorted)
  then have srt: "sorted_wrt (\<lambda>a b. sortCompare (compareEvents ?rt) a b \<le> 0) feed"
    unfolding xs using sortEvents_sorted [of xs ?rt] valid xs by blast
  have le: "sortCompare (compareEvents ?rt) (feed ! j) (feed ! i) \<le> 0" if "j < i"
    using sorted_wrt_nth_less [OF srt that assms(2)] .
  have 1: "i < j" if "ti < tj"
  proof (rule ccontr)
    assume "\<not> i < j"
    then consider "i = j" | "j < i" by linarith
    then show False
    proof cases
      case 1
      with t that show False by simp
    next
      case 2
      from le [OF 2] t that show False by (simp add: compareEvents_le)
    qed
  qed
  have 2: "i < j" if "ti = tj" "SORT_ORDER (source (feed ! i)) < SORT_ORDER (source (feed ! j))"
  proof (rule ccontr)
    assume "\<not> i < j"
    then consider "i = j" | "j < i" by linarith
    then show False
    proof cases
      case 1
      with that show False by simp
    next
      case 2
      from le [OF 2] t that show False by (simp add: compareEvents_le)
    qed
  qed
  show ?thesis using t 1 2 by simp
qed

theorem feed_sorted_by_time_then_source_witness:
  "getCalendarEvents sampleWorld = Inr sampleFeed \<and> length sampleFeed = 5 \<and>
   getTime (runtimeOf sampleWorld) (sampleFeed ! 0) = Some 1750428000000 \<and>
   getTime (runtimeOf sampleWorld) (sampleFeed ! 4) = Some 1750534200000 \<and>
   (0 :: nat) < 4"
proof -
  have len: "(0 :: nat) < length sampleFeed" "(4 :: nat) < length sampleFeed"
    by (simp_all add: sampleFeed_def)
  have t0: "getTime (runtimeOf sampleWorld) (sampleFeed ! 0) = Some 1750428000000"
    by code_simp
  have t4: "getTime (runtimeOf sampleWorld) (sampleFeed ! 4) = Some 1750534200000"
    by code_simp
  from feed_sorted_by_time_then_source [OF sampleWorld_feed len]
  have "(0 :: nat) < 4" using t0 t4 by simp
  then show ?thesis
    using sampleWorld_feed t0 t4 by (simp add: sampleFeed_def)
qed

section \<open>Time windows of the normalizers\<close>










section \<open>Results and outcomes of club fixtures\<close>

lemma match_signed_digits_None: "(match_signed_digits s = None) = (\<not> list_ex is_digit s)"
  by (induction s) (auto simp: neq_Nil_conv)

lemma not_space_digit: "is_digit c \<Longrightarrow> \<not> is_space c"
  by (auto simp: is_digit_def is_space_def)

lemma parseInt10_match:
  assumes "match_signed_digits s = Some m"
  shows "parseInt10 m \<noteq> None"
  using assms
proof (induction s)
  case Nil
  then show ?case by simp
next
  case (Cons c cs)
  show ?case
  proof (cases "c = CHR ''-'' \<and> cs \<noteq> [] \<and> is_digit (hd cs)")
    case True
    then obtain d ds where cs: "cs = d # ds" "is_digit d" by (cases cs) auto
    from True Cons.prems have m: "m = CHR ''-'' # takeWhile is_digit cs" by simp
    have "\<not> is_space (CHR ''-'')" by (simp add: is_space_def)
    then show ?thesis
      by (simp add: m cs parseInt10_def Let_def)
  next
    case False
    show ?thesis
    proof (cases "is_digit c")
      case True
      with False Cons.prems have m: "m = c # takeWhile is_digit cs" by auto
      have ns: "\<not> is_space c" using True by (rule not_space_digit)
      have "c \<noteq> CHR ''-''" "c \<noteq> CHR ''+''" using True by (auto simp: is_digit_def)
      then show ?thesis
        using True ns by (simp add: m parseInt10_def Let_def)
    next
      case nd: False
      with False Cons.prems have "match_signed_digits cs = Some m" by auto
      then show ?thesis by (rule Cons.IH)
    qed
  qed
qed

lemma bitLength_le: "0 \<le> a \<Longrightarrow> a < 2 ^ k \<Longrightarrow> bitLength a \<le> k"
proof (induction k arbitrary: a)
  case 0
  then have "a = 0" by simp
  then show ?case by (simp add: bitLength.simps)
next
  case (Suc k)
  show ?case
  proof (cases "a \<le> 0")
    case True
    then show ?thesis by (simp add: bitLength.simps)
  next
    case False
    have "a div 2 < 2 ^ k" using Suc.prems by simp
    moreover have "0 \<le> a div 2" using Suc.prems by simp
    ultimately have "bitLength (a div 2) \<le> k" by (rule Suc.IH[rotated])
    then show ?thesis using False by (subst bitLength.simps) simp
  qed
qed

lemma toDouble_2_53:
  "toDouble (2 ^ 53) = Finite (2 ^ 53)" "toDouble (- (2 ^ 53)) = Finite (- (2 ^ 53))"
  by code_simp+

lemma toDouble_exact: "\<bar>n\<bar> \<le> 2 ^ 53 \<Longrightarrow> toDouble n = Finite n"
proof (cases "\<bar>n\<bar> < 2 ^ 53")
  case True
  then have "bitLength \<bar>n\<bar> \<le> 53" by (intro bitLength_le) simp_all
  then show ?thesis by (simp add: toDouble_def Let_def)
next
  case False
  assume "\<bar>n\<bar> \<le> 2 ^ 53"
  with False have "n = 2 ^ 53 \<or> n = - (2 ^ 53)" by linarith
  then show ?thesis using toDouble_2_53 by auto
qed

text \<open>Beyond \<open>2^53\<close> two different integers can be one double, and then they compare
  equal: the scores 9007199254740993 and 9007199254740992 are a draw.\<close>

lemma toDouble_rounds: "toDouble 9007199254740993 = Finite 9007199254740992"
  by code_simp

lemma deriveResult_rounds:
  "deriveResult (Some ''post'') (Some ''9007199254740993'') (Some ''9007199254740992'') None None
     = (Some ''9007199254740993 - 9007199254740992'', Some DRAW)"
  by code_simp

lemma extractNumericScore_Some_iff:
  "(extractNumericScore v \<noteq> None) = (\<exists>s. v = Some s \<and> list_ex is_digit s)"
proof (cases v)
  case None
  then show ?thesis by (simp add: extractNumericScore_def)
next
  case (Some s)
  show ?thesis
  proof (cases "match_signed_digits s")
    case None
    then show ?thesis
      using match_signed_digits_None [of s] Some by (auto simp: extractNumericScore_def)
  next
    case (Some m)
    from parseInt10_match [OF this] Some match_signed_digits_None [of s] \<open>v = Some s\<close>
    show ?thesis by (auto simp: extractNumericScore_def NumberParseInt_def)
  qed
qed

lemma extractNumericScore_value:
  assumes "s \<noteq> []" "match_signed_digits s = Some m" "parseInt10 m = Some n"
  shows "extractNumericScore (Some s) = Some (toDouble n)"
  using assms by (simp add: extractNumericScore_def NumberParseInt_def)

lemma result_teamEventOf:
  "result (teamEventOf src event st) =
     fst (deriveResult (stateOf event) (focusScoreOf src event) (opponentScoreOf src event)
            (statusDetailOf event) (statusDescriptionOf event))"
  by (simp add: teamEventOf_def Let_def)

lemma outcome_teamEventOf:
  "outcome (teamEventOf src event st) =
     snd (deriveResult (stateOf event) (focusScoreOf src event) (opponentScoreOf src event)
            (statusDetailOf event) (statusDescriptionOf event))"
  by (simp add: teamEventOf_def Let_def)

lemma deriveResult_scores:
  assumes "fs \<noteq> []" "os \<noteq> []"
  shows "fst (deriveResult (Some ''post'') (Some fs) (Some os) d1 d2) = Some (fs @ '' - '' @ os)"
    and "snd (deriveResult (Some ''post'') (Some fs) (Some os) d1 d2) =
           (case extractNumericScore (Some fs) of
              None \<Rightarrow> None
            | Some f \<Rightarrow> (case extractNumericScore (Some os) of
                 None \<Rightarrow> None
               | Some p \<Rightarrow> Some (if lessNumber p f then WIN else if lessNumber f p then LOSS
                                   else DRAW)))"
  using assms by (auto simp: deriveResult_def truthy_def split: option.splits)

lemma deriveResult_no_scores:
  assumes "\<not> (truthy fsv \<and> truthy osv)"
  shows "deriveResult (Some ''post'') fsv osv d1 d2 =
           (if truthy d1 then d1 else if truthy d2 then d2 else None, None)"
  using assms by (auto simp: deriveResult_def)

text \<open>
  C3 (amended). For a club fixture that is emitted and whose status state is \<open>post\<close>:
  if the score strings of the club and of the opponent are both present and not empty,
  \<open>result\<close> is \<open>"{ourScore} - {theirScore}"\<close>, built from the two strings as they are; then, if
  both strings hold a number, \<open>outcome\<close> is WIN when ours is greater, LOSS when it is less
  and DRAW when they are equal, and if one of them holds no digit there is no \<open>outcome\<close>.
  The number of a string is what \<open>Number.parseInt\<close> makes of its first run of digits, with
  a minus sign directly before it: the double nearest to the integer written, which is
  that integer up to \<open>2^53\<close> in absolute value, so that scores up to \<open>2^53\<close> are compared as
  the integers they are. If a score string is missing or empty there is no \<open>outcome\<close>, and
  \<open>result\<close> is the status detail when that is not empty, else the status description when
  that is not empty, else absent. A score holds a number exactly when it has a digit.
\<close>

theorem club_result_and_outcome:
  assumes "normalizeTeamEvent rt now src event = Some e" "stateOf event = Some ''post''"
  shows "(\<forall>fs os. focusScoreOf src event = Some fs \<and> fs \<noteq> [] \<and>
            opponentScoreOf src event = Some os \<and> os \<noteq> [] \<longrightarrow>
            result e = Some (fs @ '' - '' @ os) \<and>
            (\<forall>f p. extractNumericScore (Some fs) = Some f \<and> extractNumericScore (Some os) = Some p \<longrightarrow>
                    outcome e = Some (if lessNumber p f then WIN else if lessNumber f p then LOSS
                                      else DRAW)) \<and>
            (\<forall>a b. extractNumericScore (Some fs) = Some (Finite a) \<and>
                    extractNumericScore (Some os) = Some (Finite b) \<longrightarrow>
                    outcome e = Some (if a > b then WIN else if a < b then LOSS else DRAW)) \<and>
            (\<not> list_ex is_digit fs \<or> \<not> list_ex is_digit os \<longrightarrow> outcome e = None)) \<and>
         (\<not> (truthy (focusScoreOf src event) \<and> truthy (opponentScoreOf src event)) \<longrightarrow>
            outcome e = None \<and>
            result e = (if truthy (statusDetailOf event) then statusDetailOf event
                        else if truthy (statusDescriptionOf event) then statusDescriptionOf event
                        else None)) \<and>
         (\<forall>v. (extractNumericScore v \<noteq> None) = (\<exists>s. v = Some s \<and> list_ex is_digit s)) \<and>
         (\<forall>s m n. s \<noteq> [] \<and> match_signed_digits s = Some m \<and> parseInt10 m = Some n \<longrightarrow>
            extractNumericScore (Some s) = Some (toDouble n)) \<and>
         (\<forall>n. \<bar>n\<bar> \<le> 2 ^ 53 \<longrightarrow> toDouble n = Finite n)"
proof -
  let ?d = "deriveResult (stateOf event) (focusScoreOf src event) (opponentScoreOf src event)
              (statusDetailOf event) (statusDescriptionOf event)"
  have e: "e = teamEventOf src event (startTimeUTC e)"
    using assms(1) by (rule normalizeTeamEvent_eq)
  have r: "result e = fst ?d" by (subst e) (rule result_teamEventOf)
  have o: "outcome e = snd ?d" by (subst e) (rule outcome_teamEventOf)
  have A: "result e = Some (fs @ '' - '' @ os) \<and>
        (\<forall>f p. extractNumericScore (Some fs) = Some f \<and> extractNumericScore (Some os) = Some p \<longrightarrow>
                outcome e = Some (if lessNumber p f then WIN else if lessNumber f p then LOSS
                                  else DRAW)) \<and>
        (\<forall>a b. extractNumericScore (Some fs) = Some (Finite a) \<and>
                extractNumericScore (Some os) = Some (Finite b) \<longrightarrow>
                outcome e = Some (if a > b then WIN else if a < b then LOSS else DRAW)) \<and>
        (\<not> list_ex is_digit fs \<or> \<not> list_ex is_digit os \<longrightarrow> outcome e = None)"
    if s: "focusScoreOf src event = Some fs" "fs \<noteq> []" "opponentScoreOf src event = Some os" "os \<noteq> []"
    for fs os
  proof -
    have 1: "result e = Some (fs @ '' - '' @ os)"
      unfolding r assms(2) s(1) s(3) using s(2,4) by (rule deriveResult_scores(1))
    have 2: "outcome e = (case extractNumericScore (Some fs) of
              None \<Rightarrow> None
            | Some f \<Rightarrow> (case extractNumericScore (Some os) of
                 None \<Rightarrow> None
               | Some p \<Rightarrow> Some (if lessNumber p f then WIN else if lessNumber f p then LOSS
                                   else DRAW)))"
      unfolding o assms(2) s(1) s(3) using s(2,4) by (rule deriveResult_scores(2))
    have 3: "outcome e = None" if "\<not> list_ex is_digit fs \<or> \<not> list_ex is_digit os"
    proof -
      from that have "extractNumericScore (Some fs) = None \<or> extractNumericScore (Some os) = None"
        using extractNumericScore_Some_iff [of "Some fs"] extractNumericScore_Some_iff [of "Some os"]
        by auto
      then show ?thesis unfolding 2 by (auto split: option.splits)
    qed
    have 4: "outcome e = Some (if lessNumber p f then WIN else if lessNumber f p then LOSS else DRAW)"
      if "extractNumericScore (Some fs) = Some f" "extractNumericScore (Some os) = Some p" for f p
      unfolding 2 using that by simp
    have 5: "outcome e = Some (if a > b then WIN else if a < b then LOSS else DRAW)"
      if "extractNumericScore (Some fs) = Some (Finite a)"
         "extractNumericScore (Some os) = Some (Finite b)" for a b
      using 4 [OF that] by simp
    have q4: "\<forall>f p. extractNumericScore (Some fs) = Some f \<and> extractNumericScore (Some os) = Some p \<longrightarrow>
                outcome e = Some (if lessNumber p f then WIN else if lessNumber f p then LOSS
                                  else DRAW)"
      by (intro allI impI) (elim conjE, rule 4)
    have q5: "\<forall>a b. extractNumericScore (Some fs) = Some (Finite a) \<and>
                extractNumericScore (Some os) = Some (Finite b) \<longrightarrow>
                outcome e = Some (if a > b then WIN else if a < b then LOSS else DRAW)"
      by (intro allI impI) (elim conjE, rule 5)
    have q3: "\<not> list_ex is_digit fs \<or> \<not> list_ex is_digit os \<longrightarrow> outcome e = None"
      by (rule impI) (rule 3)
    from 1 q4 q5 q3 show ?thesis by (intro conjI)
  qed
  have B: "outcome e = None \<and>
            result e = (if truthy (statusDetailOf event) then statusDetailOf event
                        else if truthy (statusDescriptionOf event) then statusDescriptionOf event
                        else None)"
    if "\<not> (truthy (focusScoreOf src event) \<and> truthy (opponentScoreOf src event))"
    unfolding r o assms(2) deriveResult_no_scores [OF that] by simp
  have A': "\<forall>fs os. focusScoreOf src event = Some fs \<and> fs \<noteq> [] \<and>
            opponentScoreOf src event = Some os \<and> os \<noteq> [] \<longrightarrow>
            result e = Some (fs @ '' - '' @ os) \<and>
            (\<forall>f p. extractNumericScore (Some fs) = Some f \<and> extractNumericScore (Some os) = Some p \<longrightarrow>
                    outcome e = Some (if lessNumber p f then WIN else if lessNumber f p then LOSS
                                      else DRAW)) \<and>
            (\<forall>a b. extractNumericScore (Some fs) = Some (Finite a) \<and>
                    extractNumericScore (Some os) = Some (Finite b) \<longrightarrow>
                    outcome e = Some (if a > b then WIN else if a < b then LOSS else DRAW)) \<and>
            (\<not> list_ex is_digit fs \<or> \<not> list_ex is_digit os \<longrightarrow> outcome e = None)"
    by (intro allI impI) (elim conjE, rule A)
  have B': "\<not> (truthy (focusScoreOf src event) \<and> truthy (opponentScoreOf src event)) \<longrightarrow>
            outcome e = None \<and>
            result e = (if truthy (statusDetailOf event) then statusDetailOf event
                        else if truthy (statusDescriptionOf event) then statusDescriptionOf event
                        else None)"
    by (rule impI) (rule B)
  have C: "\<forall>v. (extractNumericScore v \<noteq> None) = (\<exists>s. v = Some s \<and> list_ex is_digit s)"
    by (rule allI) (rule extractNumericScore_Some_iff)
  have D: "\<forall>s m n. s \<noteq> [] \<and> match_signed_digits s = Some m \<and> parseInt10 m = Some n \<longrightarrow>
            extractNumericScore (Some s) = Some (toDouble n)"
    by (intro allI impI) (elim conjE, rule extractNumericScore_value)
  have E: "\<forall>n. \<bar>n\<bar> \<le> 2 ^ 53 \<longrightarrow> toDouble n = Finite n"
    by (intro allI impI) (rule toDouble_exact)
  from A' B' C D E show ?thesis by (intro conjI)
qed

theorem club_result_and_outcome_witness:
  "normalizeTeamEvent sampleRuntime sampleNow TEAM_MANCHESTER_UNITED unitedFixture = Some (sampleFeed ! 0) \<and>
   stateOf unitedFixture = Some ''post'' \<and>
   focusScoreOf TEAM_MANCHESTER_UNITED unitedFixture = Some ''2'' \<and>
   opponentScoreOf TEAM_MANCHESTER_UNITED unitedFixture = Some ''1'' \<and>
   extractNumericScore (Some ''2'') = Some (Finite 2) \<and>
   extractNumericScore (Some ''1'') = Some (Finite 1) \<and>
   result (sampleFeed ! 0) = Some ''2 - 1'' \<and> outcome (sampleFeed ! 0) = Some WIN \<and>
   normalizeTeamEvent sampleRuntime sampleNow TEAM_LEEDS_UNITED scorelessFixture \<noteq> None \<and>
   stateOf scorelessFixture = Some ''post'' \<and>
   \<not> (truthy (focusScoreOf TEAM_LEEDS_UNITED scorelessFixture) \<and>
       truthy (opponentScoreOf TEAM_LEEDS_UNITED scorelessFixture)) \<and>
   map result (normalizeTeamEvents sampleRuntime (\<lambda>i. sampleNow) (Some [scorelessFixture]) TEAM_LEEDS_UNITED)
     = [Some ''FT'']"
proof -
  have n1: "normalizeTeamEvent sampleRuntime sampleNow TEAM_MANCHESTER_UNITED unitedFixture = Some (sampleFeed ! 0)"
    by code_simp
  have s1: "stateOf unitedFixture = Some ''post''" by code_simp
  have f1: "focusScoreOf TEAM_MANCHESTER_UNITED unitedFixture = Some ''2''" by code_simp
  have o1: "opponentScoreOf TEAM_MANCHESTER_UNITED unitedFixture = Some ''1''" by code_simp
  have x1: "extractNumericScore (Some ''2'') = Some (Finite 2)" by code_simp
  have x2: "extractNumericScore (Some ''1'') = Some (Finite 1)" by code_simp
  note i1 = club_result_and_outcome [OF n1 s1, THEN conjunct1, THEN spec, THEN spec, THEN mp,
      of "''2''" "''1''"]
  have r1: "result (sampleFeed ! 0) = Some ''2 - 1''"
    using i1 f1 o1 by simp
  have "outcome (sampleFeed ! 0) = Some (if (2::int) > 1 then WIN else if (2::int) < 1 then LOSS else DRAW)"
    using i1 f1 o1 x1 x2 by simp
  then have w1: "outcome (sampleFeed ! 0) = Some WIN" by simp
  obtain e where n2: "normalizeTeamEvent sampleRuntime sampleNow TEAM_LEEDS_UNITED scorelessFixture = Some e"
    and ev: "normalizeTeamEvents sampleRuntime (\<lambda>i. sampleNow) (Some [scorelessFixture]) TEAM_LEEDS_UNITED = [e]"
    by (cases "normalizeTeamEvent sampleRuntime sampleNow TEAM_LEEDS_UNITED scorelessFixture")
       (code_simp, simp add: normalizeTeamEvents_def)
  have s2: "stateOf scorelessFixture = Some ''post''" by code_simp
  have t2: "\<not> (truthy (focusScoreOf TEAM_LEEDS_UNITED scorelessFixture) \<and>
       truthy (opponentScoreOf TEAM_LEEDS_UNITED scorelessFixture))" by code_simp
  have d2: "statusDetailOf scorelessFixture = Some ''FT''" by code_simp
  from club_result_and_outcome [OF n2 s2, THEN conjunct2, THEN conjunct1, THEN mp, OF t2]
  have "result e = Some ''FT''" by (simp add: d2 truthy_def)
  then have r2: "map result (normalizeTeamEvents sampleRuntime (\<lambda>i. sampleNow) (Some [scorelessFixture])
                   TEAM_LEEDS_UNITED) = [Some ''FT'']"
    by (simp add: ev)
  from n2 have k2: "normalizeTeamEvent sampleRuntime sampleNow TEAM_LEEDS_UNITED scorelessFixture \<noteq> None"
    by simp
  from n1 s1 f1 o1 x1 x2 r1 w1 k2 s2 t2 r2 show ?thesis by (intro conjI)
qed

theorem club_result_counterexample:
  "stateOf abandonedFixture = Some ''post'' \<and>
   focusScoreOf TEAM_MANCHESTER_UNITED abandonedFixture = Some ''-'' \<and>
   opponentScoreOf TEAM_MANCHESTER_UNITED abandonedFixture = Some ''-'' \<and>
   extractNumericScore (Some ''-'') = None \<and>
   statusDetailOf abandonedFixture = Some ''Abandoned'' \<and>
   map result (normalizeTeamEvents sampleRuntime (\<lambda>i. sampleNow) (Some [abandonedFixture])
                 TEAM_MANCHESTER_UNITED) = [Some ''- - -''] \<and>
   map outcome (normalizeTeamEvents sampleRuntime (\<lambda>i. sampleNow) (Some [abandonedFixture])
                 TEAM_MANCHESTER_UNITED) = [None]"
  by code_simp

section \<open>Endpoint fallback of the club fetches\<close>

lemma successes_simps [simp]:
  "successes [] = []"
  "successes (Inl e # rs) = successes rs"
  "successes (Inr x # rs) = x # successes rs"
  by (simp_all add: successes_def)

lemma failures_simps [simp]:
  "failures [] = []"
  "failures (Inl e # rs) = e # failures rs"
  "failures (Inr x # rs) = failures rs"
  by (simp_all add: failures_def)

lemma fetchTeamScheduleFrom_eq:
  "fetchTeamScheduleFrom fetch eps lastError =
     (case find hasEvents (successes (map (fetchJson fetch) eps)) of
        Some data \<Rightarrow> Inr (Some data)
      | None \<Rightarrow>
          if eps = [] then (case lastError of Some e \<Rightarrow> Inl e | None \<Rightarrow> Inr None)
          else (case last (map (fetchJson fetch) eps) of
                  Inl e \<Rightarrow> Inl e
                | Inr data \<Rightarrow> Inr (Some data)))"
proof (induction eps arbitrary: lastError)
  case Nil
  show ?case by simp
next
  case (Cons ep rest)
  show ?case
  proof (cases "fetchJson fetch ep")
    case (Inl e)
    then show ?thesis by (simp add: Cons.IH split: option.splits)
  next
    case (Inr data)
    then show ?thesis by (simp add: Cons.IH split: option.splits)
  qed
qed

text \<open>
  C5 (amended). The club-schedule fetch tries its endpoints in order and returns the
  first response that contains at least one event. If no response contains one, the
  last endpoint decides: its response is returned when it answered, and its error is
  propagated when it failed. So an error is propagated exactly when the last endpoint
  fails and no endpoint before it returned a response with an event, whether or not one
  of them answered with an empty response; the error is the last endpoint's.
\<close>

theorem fetchTeamSchedule_outcome:
  "fetchTeamSchedule fetch src =
     (case find hasEvents (successes (scheduleAttempts fetch src)) of
        Some data \<Rightarrow> Inr (Some data)
      | None \<Rightarrow> (case last (scheduleAttempts fetch src) of
                   Inl e \<Rightarrow> Inl e
                 | Inr data \<Rightarrow> Inr (Some data))) \<and>
   (fetchTeamSchedule fetch src = Inl err) =
     (find hasEvents (successes (scheduleAttempts fetch src)) = None \<and>
      last (scheduleAttempts fetch src) = Inl err)"
proof -
  have ne: "endpoints (TEAM_SOURCES src) \<noteq> []" by (cases src) simp_all
  have eq: "fetchTeamSchedule fetch src =
     (case find hasEvents (successes (scheduleAttempts fetch src)) of
        Some data \<Rightarrow> Inr (Some data)
      | None \<Rightarrow> (case last (scheduleAttempts fetch src) of
                   Inl e \<Rightarrow> Inl e
                 | Inr data \<Rightarrow> Inr (Some data)))"
    unfolding fetchTeamSchedule_def scheduleAttempts_def fetchTeamScheduleFrom_eq
    using ne by simp
  show ?thesis
    unfolding eq by (auto split: option.splits sum.splits)
qed

theorem fetchTeamSchedule_outcome_witness:
  "find hasEvents (successes (scheduleAttempts (scheduleNetwork sampleWorld TEAM_LEEDS_UNITED) TEAM_LEEDS_UNITED))
     = Some \<lparr>schedule_events = Some [leedsFixture]\<rparr> \<and>
   fetchTeamSchedule (scheduleNetwork sampleWorld TEAM_LEEDS_UNITED) TEAM_LEEDS_UNITED
     = Inr (Some \<lparr>schedule_events = Some [leedsFixture]\<rparr>)"
proof -
  have f: "find hasEvents (successes (scheduleAttempts (scheduleNetwork sampleWorld TEAM_LEEDS_UNITED)
             TEAM_LEEDS_UNITED)) = Some \<lparr>schedule_events = Some [leedsFixture]\<rparr>"
    by code_simp
  from fetchTeamSchedule_outcome [of "scheduleNetwork sampleWorld TEAM_LEEDS_UNITED" TEAM_LEEDS_UNITED,
      THEN conjunct1]
  have "fetchTeamSchedule (scheduleNetwork sampleWorld TEAM_LEEDS_UNITED) TEAM_LEEDS_UNITED
     = Inr (Some \<lparr>schedule_events = Some [leedsFixture]\<rparr>)"
    unfolding f by simp
  with f show ?thesis by (rule conjI)
qed

theorem fetchTeamSchedule_counterexample:
  "scheduleAttempts emptyThenDown TEAM_LEEDS_UNITED =
     [Inr \<lparr>schedule_events = Some []\<rparr>,
      Inl (Error ''Failed to fetch https://site.api.espn.com/apis/site/v2/sports/soccer/eng.2/teams/357/schedule: 503 Service Unavailable'')] \<and>
   fetchTeamSchedule emptyThenDown TEAM_LEEDS_UNITED =
     Inl (Error ''Failed to fetch https://site.api.espn.com/apis/site/v2/sports/soccer/eng.2/teams/357/schedule: 503 Service Unavailable'')"
  by code_simp

lemma scoreboardAttemptsFrom_Cons:
  "scoreboardAttemptsFrom fetch rt clock i (ep # eps) =
     scoreboardAttempt fetch rt (clock i) ep # scoreboardAttemptsFrom fetch rt clock (Suc i) eps"
  by (simp add: scoreboardAttemptsFrom_def)

lemma scoreboardLoop_eq:
  "scoreboardLoop fetch rt clock tid i eps aggregated lastError =
     (aggregated @ concat (map (qualifying tid) (successes (scoreboardAttemptsFrom fetch rt clock i eps))),
      if failures (scoreboardAttemptsFrom fetch rt clock i eps) = [] then lastError
      else Some (last (failures (scoreboardAttemptsFrom fetch rt clock i eps))))"
proof (induction eps arbitrary: i aggregated lastError)
  case Nil
  show ?case by (simp add: scoreboardAttemptsFrom_def)
next
  case (Cons ep eps)
  show ?case
    by (cases "scoreboardAttempt fetch rt (clock i) ep")
       (simp_all add: Cons.IH scoreboardAttemptsFrom_Cons)
qed

text \<open>
  C4 (amended). The club-scoreboard fetch propagates an error exactly when no
  qualifying event was collected from any endpoint and at least one endpoint failed;
  the error is that of the last endpoint that failed. Otherwise (an endpoint gave a
  qualifying event, or no endpoint failed) it returns the qualifying events of the
  endpoints that answered, in order.
\<close>

theorem fetchTeamScoreboardEvents_outcome:
  "fetchTeamScoreboardEvents fetch rt clock src =
     (if concat (map (qualifying (teamId (TEAM_SOURCES src)))
                  (successes (scoreboardAttempts fetch rt clock src))) = [] \<and>
         failures (scoreboardAttempts fetch rt clock src) \<noteq> []
      then Inl (last (failures (scoreboardAttempts fetch rt clock src)))
      else Inr (concat (map (qualifying (teamId (TEAM_SOURCES src)))
                         (successes (scoreboardAttempts fetch rt clock src))))) \<and>
   (fetchTeamScoreboardEvents fetch rt clock src = Inl err) =
     (concat (map (qualifying (teamId (TEAM_SOURCES src)))
                (successes (scoreboardAttempts fetch rt clock src))) = [] \<and>
      failures (scoreboardAttempts fetch rt clock src) \<noteq> [] \<and>
      err = last (failures (scoreboardAttempts fetch rt clock src)))"
proof -
  have ne: "scoreboardEndpoints (TEAM_SOURCES src) \<noteq> []" by (cases src) simp_all
  have eq: "fetchTeamScoreboardEvents fetch rt clock src =
     (if concat (map (qualifying (teamId (TEAM_SOURCES src)))
                  (successes (scoreboardAttempts fetch rt clock src))) = [] \<and>
         failures (scoreboardAttempts fetch rt clock src) \<noteq> []
      then Inl (last (failures (scoreboardAttempts fetch rt clock src)))
      else Inr (concat (map (qualifying (teamId (TEAM_SOURCES src)))
                         (successes (scoreboardAttempts fetch rt clock src)))))"
    unfolding fetchTeamScoreboardEvents_def scoreboardAttempts_def Let_def scoreboardLoop_eq
    using ne by simp
  show ?thesis
    unfolding eq by auto
qed

theorem fetchTeamScoreboardEvents_outcome_witness:
  "failures (scoreboardAttempts (scoreboardNetwork sampleWorld TEAM_LEEDS_UNITED) sampleRuntime
      (\<lambda>i. sampleNow) TEAM_LEEDS_UNITED) = [] \<and>
   fetchTeamScoreboardEvents (scoreboardNetwork sampleWorld TEAM_LEEDS_UNITED) sampleRuntime
      (\<lambda>i. sampleNow) TEAM_LEEDS_UNITED = Inr []"
proof -
  have f: "failures (scoreboardAttempts (scoreboardNetwork sampleWorld TEAM_LEEDS_UNITED) sampleRuntime
      (\<lambda>i. sampleNow) TEAM_LEEDS_UNITED) = []"
    by code_simp
  have q: "concat (map (qualifying (teamId (TEAM_SOURCES TEAM_LEEDS_UNITED)))
             (successes (scoreboardAttempts (scoreboardNetwork sampleWorld TEAM_LEEDS_UNITED) sampleRuntime
                (\<lambda>i. sampleNow) TEAM_LEEDS_UNITED))) = []"
    by code_simp
  from fetchTeamScoreboardEvents_outcome
    [of "scoreboardNetwork sampleWorld TEAM_LEEDS_UNITED" sampleRuntime "\<lambda>i. sampleNow" TEAM_LEEDS_UNITED,
     THEN conjunct1]
  have "fetchTeamScoreboardEvents (scoreboardNetwork sampleWorld TEAM_LEEDS_UNITED) sampleRuntime
      (\<lambda>i. sampleNow) TEAM_LEEDS_UNITED = Inr []"
    unfolding f q by simp
  with f show ?thesis by (rule conjI)
qed

theorem fetchTeamScoreboardEvents_counterexample:
  "scoreboardAttempts othersThenDown sampleRuntime (\<lambda>i. sampleNow) TEAM_LEEDS_UNITED =
     [Inr \<lparr>scoreboard_events = Some [unitedFixture]\<rparr>, Inl (TypeError ''fetch failed'')] \<and>
   qualifying ''357'' \<lparr>scoreboard_events = Some [unitedFixture]\<rparr> = [] \<and>
   fetchTeamScoreboardEvents othersThenDown sampleRuntime (\<lambda>i. sampleNow) TEAM_LEEDS_UNITED =
     Inl (TypeError ''fetch failed'')"
  by code_simp

section \<open>The cell count an esports row needs\<close>








section \<open>Failure of a source\<close>

text \<open>
  \<^verbatim>\<open>getCalendarEvents\<close> awaits \<^verbatim>\<open>Promise.all\<close> of the four fetches with no handler of its
  own; the handler is the \<^verbatim>\<open>catch\<close> of \<^verbatim>\<open>GET\<close>. (\<^verbatim>\<open>cache\<close> of React memoizes the call for
  one request and does not change what a call returns.)
\<close>

lemma getCalendarEvents_all:
  assumes "fetchManchesterUnitedEvents w = Inr a" "fetchLeedsUnitedEvents w = Inr b"
    "fetchLegacyCs2Events w = Inr c" "fetchUfcEvents w = Inr d"
  shows "getCalendarEvents w = Inr (sortEvents (runtimeOf w) (a @ b @ c @ d))"
  using assms by (simp add: getCalendarEvents_def)

lemma getCalendarEvents_fails:
  assumes "fetchManchesterUnitedEvents w = Inl e \<or> fetchLeedsUnitedEvents w = Inl e \<or>
           fetchLegacyCs2Events w = Inl e \<or> fetchUfcEvents w = Inl e"
  shows "\<exists>e'. getCalendarEvents w = Inl e'"
  using assms getCalendarEvents_Inl [of w] by blast

lemma GET_Inr:
  assumes "getCalendarEvents w = Inr feed"
  shows "GET w = \<lparr>response_body = EventsPayload (map publicFields feed), http_status = 200\<rparr>"
  using assms by (simp add: GET_def)

lemma GET_Inl:
  assumes "getCalendarEvents w = Inl e"
  shows "GET w = \<lparr>response_body = ErrorPayload ''Failed to load events'', http_status = 500\<rparr>"
  using assms by (simp add: GET_def)

lemma getCalendarEvents_only_failure:
  assumes "(fetchManchesterUnitedEvents w = Inl e \<and> fetchLeedsUnitedEvents w = Inr b \<and>
            fetchLegacyCs2Events w = Inr c \<and> fetchUfcEvents w = Inr d) \<or>
           (fetchManchesterUnitedEvents w = Inr a \<and> fetchLeedsUnitedEvents w = Inl e \<and>
            fetchLegacyCs2Events w = Inr c \<and> fetchUfcEvents w = Inr d) \<or>
           (fetchManchesterUnitedEvents w = Inr a \<and> fetchLeedsUnitedEvents w = Inr b \<and>
            fetchLegacyCs2Events w = Inl e \<and> fetchUfcEvents w = Inr d) \<or>
           (fetchManchesterUnitedEvents w = Inr a \<and> fetchLeedsUnitedEvents w = Inr b \<and>
            fetchLegacyCs2Events w = Inr c \<and> fetchUfcEvents w = Inl e)"
  shows "getCalendarEvents w = Inl e"
  using assms by (auto simp: getCalendarEvents_def)

text \<open>
  C1 (amended). The aggregation call is all-or-nothing. When all four source fetches
  succeed, it returns the sorted concatenation of their events and the read endpoint
  answers 200 with their public records. When any source fetch raises, the aggregation
  call raises too (with that source's error when it is the only one that failed), no event
  of the other sources is returned, and the read endpoint answers 500 with the error
  payload \<open>Failed to load events\<close>.
\<close>

theorem getCalendarEvents_all_or_nothing:
  "(\<forall>a b c d. fetchManchesterUnitedEvents w = Inr a \<and> fetchLeedsUnitedEvents w = Inr b \<and>
       fetchLegacyCs2Events w = Inr c \<and> fetchUfcEvents w = Inr d \<longrightarrow>
       getCalendarEvents w = Inr (sortEvents (runtimeOf w) (a @ b @ c @ d)) \<and>
       GET w = \<lparr>response_body =
                   EventsPayload (map publicFields (sortEvents (runtimeOf w) (a @ b @ c @ d))),
                 http_status = 200\<rparr>) \<and>
   (\<forall>e. fetchManchesterUnitedEvents w = Inl e \<or> fetchLeedsUnitedEvents w = Inl e \<or>
       fetchLegacyCs2Events w = Inl e \<or> fetchUfcEvents w = Inl e \<longrightarrow>
       (\<exists>e'. getCalendarEvents w = Inl e') \<and> (\<forall>feed. getCalendarEvents w \<noteq> Inr feed) \<and>
       GET w = \<lparr>response_body = ErrorPayload ''Failed to load events'', http_status = 500\<rparr>) \<and>
   (\<forall>e a b c d.
       (fetchManchesterUnitedEvents w = Inl e \<and> fetchLeedsUnitedEvents w = Inr b \<and>
        fetchLegacyCs2Events w = Inr c \<and> fetchUfcEvents w = Inr d) \<or>
       (fetchManchesterUnitedEvents w = Inr a \<and> fetchLeedsUnitedEvents w = Inl e \<and>
        fetchLegacyCs2Events w = Inr c \<and> fetchUfcEvents w = Inr d) \<or>
       (fetchManchesterUnitedEvents w = Inr a \<and> fetchLeedsUnitedEvents w = Inr b \<and>
        fetchLegacyCs2Events w = Inl e \<and> fetchUfcEvents w = Inr d) \<or>
       (fetchManchesterUnitedEvents w = Inr a \<and> fetchLeedsUnitedEvents w = Inr b \<and>
        fetchLegacyCs2Events w = Inr c \<and> fetchUfcEvents w = Inl e) \<longrightarrow>
       getCalendarEvents w = Inl e)"
proof (intro conjI allI impI)
  fix a b c d
  assume h: "fetchManchesterUnitedEvents w = Inr a \<and> fetchLeedsUnitedEvents w = Inr b \<and>
       fetchLegacyCs2Events w = Inr c \<and> fetchUfcEvents w = Inr d"
  then show g: "getCalendarEvents w = Inr (sortEvents (runtimeOf w) (a @ b @ c @ d))"
    by (elim conjE) (rule getCalendarEvents_all)
  then show "GET w = \<lparr>response_body =
                   EventsPayload (map publicFields (sortEvents (runtimeOf w) (a @ b @ c @ d))),
                 http_status = 200\<rparr>"
    by (rule GET_Inr)
next
  fix e
  assume h: "fetchManchesterUnitedEvents w = Inl e \<or> fetchLeedsUnitedEvents w = Inl e \<or>
       fetchLegacyCs2Events w = Inl e \<or> fetchUfcEvents w = Inl e"
  then show ex: "\<exists>e'. getCalendarEvents w = Inl e'" by (rule getCalendarEvents_fails)
  then obtain e' where e': "getCalendarEvents w = Inl e'" ..
  fix feed show "getCalendarEvents w \<noteq> Inr feed" using e' by simp
next
  fix e
  assume h: "fetchManchesterUnitedEvents w = Inl e \<or> fetchLeedsUnitedEvents w = Inl e \<or>
       fetchLegacyCs2Events w = Inl e \<or> fetchUfcEvents w = Inl e"
  then have "\<exists>e'. getCalendarEvents w = Inl e'" by (rule getCalendarEvents_fails)
  then obtain e' where e': "getCalendarEvents w = Inl e'" ..
  then show "GET w = \<lparr>response_body = ErrorPayload ''Failed to load events'', http_status = 500\<rparr>"
    by (rule GET_Inl)
next
  fix e a b c d
  assume "(fetchManchesterUnitedEvents w = Inl e \<and> fetchLeedsUnitedEvents w = Inr b \<and>
        fetchLegacyCs2Events w = Inr c \<and> fetchUfcEvents w = Inr d) \<or>
       (fetchManchesterUnitedEvents w = Inr a \<and> fetchLeedsUnitedEvents w = Inl e \<and>
        fetchLegacyCs2Events w = Inr c \<and> fetchUfcEvents w = Inr d) \<or>
       (fetchManchesterUnitedEvents w = Inr a \<and> fetchLeedsUnitedEvents w = Inr b \<and>
        fetchLegacyCs2Events w = Inl e \<and> fetchUfcEvents w = Inr d) \<or>
       (fetchManchesterUnitedEvents w = Inr a \<and> fetchLeedsUnitedEvents w = Inr b \<and>
        fetchLegacyCs2Events w = Inr c \<and> fetchUfcEvents w = Inl e)"
  then show "getCalendarEvents w = Inl e" by (rule getCalendarEvents_only_failure)
qed

text \<open>
  With the combat-sports request failing and the other three sources answering as in
  \<open>sampleWorld\<close>, exactly one source fetch raises; the aggregation call raises its error
  and the endpoint answers 500: the events of the other three sources are not delivered.
\<close>

theorem getCalendarEvents_counterexample:
  "fetchManchesterUnitedEvents ufcDownWorld = Inr [sampleFeed ! 0] \<and>
   fetchLeedsUnitedEvents ufcDownWorld = Inr [sampleFeed ! 1] \<and>
   fetchLegacyCs2Events ufcDownWorld = Inr [sampleFeed ! 2, sampleFeed ! 3] \<and>
   fetchUfcEvents ufcDownWorld = Inl (TypeError ''fetch failed'') \<and>
   getCalendarEvents ufcDownWorld = Inl (TypeError ''fetch failed'') \<and>
   GET ufcDownWorld =
     \<lparr>response_body = ErrorPayload ''Failed to load events'', http_status = 500\<rparr>"
proof -
  have c1: "fetchManchesterUnitedEvents ufcDownWorld = Inr [sampleFeed ! 0]" by code_simp
  have c2: "fetchLeedsUnitedEvents ufcDownWorld = Inr [sampleFeed ! 1]" by code_simp
  have c3: "fetchLegacyCs2Events ufcDownWorld = Inr [sampleFeed ! 2, sampleFeed ! 3]" by code_simp
  have c4: "fetchUfcEvents ufcDownWorld = Inl (TypeError ''fetch failed'')" by code_simp
  have c5: "getCalendarEvents ufcDownWorld = Inl (TypeError ''fetch failed'')"
    by (simp add: getCalendarEvents_def c1 c2 c3 c4)
  have c6: "GET ufcDownWorld =
     \<lparr>response_body = ErrorPayload ''Failed to load events'', http_status = 500\<rparr>"
    by (simp add: GET_def c5)
  from c1 c2 c3 c4 c5 c6 show ?thesis by (intro conjI)
qed

text \<open>
  In \<open>sampleWorld\<close> the four fetches succeed and the feed is the sorted concatenation; with
  the combat-sports request failing the endpoint answers 500.
\<close>

theorem getCalendarEvents_all_or_nothing_witness:
  "fetchManchesterUnitedEvents sampleWorld = Inr [sampleFeed ! 0] \<and>
   fetchLeedsUnitedEvents sampleWorld = Inr [sampleFeed ! 1] \<and>
   fetchLegacyCs2Events sampleWorld = Inr [sampleFeed ! 2, sampleFeed ! 3] \<and>
   fetchUfcEvents sampleWorld = Inr [sampleFeed ! 4] \<and>
   getCalendarEvents sampleWorld =
     Inr (sortEvents (runtimeOf sampleWorld)
            ([sampleFeed ! 0] @ [sampleFeed ! 1] @ [sampleFeed ! 2, sampleFeed ! 3] @ [sampleFeed ! 4])) \<and>
   fetchUfcEvents ufcDownWorld = Inl (TypeError ''fetch failed'') \<and>
   GET ufcDownWorld =
     \<lparr>response_body = ErrorPayload ''Failed to load events'', http_status = 500\<rparr> \<and>
   getCalendarEvents ufcDownWorld = Inl (TypeError ''fetch failed'')"
proof -
  have c1: "fetchManchesterUnitedEvents sampleWorld = Inr [sampleFeed ! 0]" by code_simp
  have c2: "fetchLeedsUnitedEvents sampleWorld = Inr [sampleFeed ! 1]" by code_simp
  have c3: "fetchLegacyCs2Events sampleWorld = Inr [sampleFeed ! 2, sampleFeed ! 3]" by code_simp
  have c4: "fetchUfcEvents sampleWorld = Inr [sampleFeed ! 4]" by code_simp
  have d4: "fetchUfcEvents ufcDownWorld = Inl (TypeError ''fetch failed'')" by code_simp
  from c1 c2 c3 c4 have all: "fetchManchesterUnitedEvents sampleWorld = Inr [sampleFeed ! 0] \<and>
     fetchLeedsUnitedEvents sampleWorld = Inr [sampleFeed ! 1] \<and>
     fetchLegacyCs2Events sampleWorld = Inr [sampleFeed ! 2, sampleFeed ! 3] \<and>
     fetchUfcEvents sampleWorld = Inr [sampleFeed ! 4]"
    by (intro conjI)
  from getCalendarEvents_all_or_nothing [of sampleWorld, THEN conjunct1, THEN spec, THEN spec,
      THEN spec, THEN spec, THEN mp, OF all, THEN conjunct1]
  have g: "getCalendarEvents sampleWorld =
     Inr (sortEvents (runtimeOf sampleWorld)
            ([sampleFeed ! 0] @ [sampleFeed ! 1] @ [sampleFeed ! 2, sampleFeed ! 3] @ [sampleFeed ! 4]))" .
  from d4 have one: "fetchManchesterUnitedEvents ufcDownWorld = Inl (TypeError ''fetch failed'') \<or>
      fetchLeedsUnitedEvents ufcDownWorld = Inl (TypeError ''fetch failed'') \<or>
      fetchLegacyCs2Events ufcDownWorld = Inl (TypeError ''fetch failed'') \<or>
      fetchUfcEvents ufcDownWorld = Inl (TypeError ''fetch failed'')"
    by (intro disjI2)
  from getCalendarEvents_all_or_nothing [of ufcDownWorld, THEN conjunct2, THEN conjunct1, THEN spec,
      THEN mp, OF one, THEN conjunct2, THEN conjunct2]
  have r: "GET ufcDownWorld =
     \<lparr>response_body = ErrorPayload ''Failed to load events'', http_status = 500\<rparr>" .
  have d1: "fetchManchesterUnitedEvents ufcDownWorld = Inr [sampleFeed ! 0]" by code_simp
  have d2: "fetchLeedsUnitedEvents ufcDownWorld = Inr [sampleFeed ! 1]" by code_simp
  have d3: "fetchLegacyCs2Events ufcDownWorld = Inr [sampleFeed ! 2, sampleFeed ! 3]" by code_simp
  from d1 d2 d3 d4 have only:
    "(fetchManchesterUnitedEvents ufcDownWorld = Inl (TypeError ''fetch failed'') \<and>
      fetchLeedsUnitedEvents ufcDownWorld = Inr [sampleFeed ! 1] \<and>
      fetchLegacyCs2Events ufcDownWorld = Inr [sampleFeed ! 2, sampleFeed ! 3] \<and>
      fetchUfcEvents ufcDownWorld = Inr []) \<or>
     (fetchManchesterUnitedEvents ufcDownWorld = Inr [sampleFeed ! 0] \<and>
      fetchLeedsUnitedEvents ufcDownWorld = Inl (TypeError ''fetch failed'') \<and>
      fetchLegacyCs2Events ufcDownWorld = Inr [sampleFeed ! 2, sampleFeed ! 3] \<and>
      fetchUfcEvents ufcDownWorld = Inr []) \<or>
     (fetchManchesterUnitedEvents ufcDownWorld = Inr [sampleFeed ! 0] \<and>
      fetchLeedsUnitedEvents ufcDownWorld = Inr [sampleFeed ! 1] \<and>
      fetchLegacyCs2Events ufcDownWorld = Inl (TypeError ''fetch failed'') \<and>
      fetchUfcEvents ufcDownWorld = Inr []) \<or>
     (fetchManchesterUnitedEvents ufcDownWorld = Inr [sampleFeed ! 0] \<and>
      fetchLeedsUnitedEvents ufcDownWorld = Inr [sampleFeed ! 1] \<and>
      fetchLegacyCs2Events ufcDownWorld = Inr [sampleFeed ! 2, sampleFeed ! 3] \<and>
      fetchUfcEvents ufcDownWorld = Inl (TypeError ''fetch failed''))"
    by (intro disjI2 conjI)
  from getCalendarEvents_all_or_nothing [of ufcDownWorld, THEN conjunct2, THEN conjunct2, THEN spec,
      THEN spec, THEN spec, THEN spec, THEN spec, THEN mp, OF only]
  have x: "getCalendarEvents ufcDownWorld = Inl (TypeError ''fetch failed'')" .
  from c1 c2 c3 c4 g d4 r x show ?thesis by (intro conjI)
qed

section \<open>The public record of the read endpoint\<close>






section \<open>Titles\<close>

text \<open>
  The esports normalizer takes its title from texts that \<^verbatim>\<open>cleanText\<close> has made non-empty
  or absent, and the club normalizer from a template that starts with the name of the
  club: their titles are never empty. The combat-sports normalizer guards its \<^verbatim>\<open>fighters\<close>
  with \<^verbatim>\<open>||\<close> and its \<^verbatim>\<open>title\<close> with \<^verbatim>\<open>??\<close>, which lets an empty string through.
\<close>

lemma cleanText_nonempty:
  assumes "cleanText v = Some t"
  shows "t \<noteq> []"
  using assms by (auto simp: cleanText_def Let_def split: option.splits if_splits)

lemma legacy_title_nonempty:
  "title (legacyEventOf lib row timestampAttr startTime cells link) \<noteq> []"
  using cleanText_nonempty [of _ "the (competitionOf lib cells)"]
  by (auto simp: legacyEventOf_def Let_def competitionOf_def split: option.splits)

lemma trim_nonempty:
  assumes "\<not> is_space c"
  shows "trim (c # s) \<noteq> []"
proof -
  have "dropWhile is_space (rev s @ [c]) \<noteq> []"
    using assms by (simp add: dropWhile_append)
  then show ?thesis using assms by (simp add: trim_def)
qed

lemma club_title_nonempty:
  "title (teamEventOf src event startTime) \<noteq> []"
proof (cases src)
  case TEAM_MANCHESTER_UNITED
  have "\<not> is_space CHR ''M''" by (simp add: is_space_def)
  from trim_nonempty [OF this] show ?thesis
    unfolding TEAM_MANCHESTER_UNITED by (simp add: teamEventOf_def formatMatchup_def Let_def)
next
  case TEAM_LEEDS_UNITED
  have "\<not> is_space CHR ''L''" by (simp add: is_space_def)
  from trim_nonempty [OF this] show ?thesis
    unfolding TEAM_LEEDS_UNITED by (simp add: teamEventOf_def formatMatchup_def Let_def)
qed

text \<open>
  C10. A combat-sports event whose \<open>name\<close> is the empty string: \<open>event.name ?? \<dots>\<close> keeps
  it, and the title of the canonical event is empty. With the name missing, the title is
  the placeholder.
\<close>

theorem normalizeUfcEvents_empty_title:
  "normalizeUfcEvents sampleRuntime (\<lambda>i. sampleNow)
     \<lparr>ufc_events = Some [sampleUfcEvent (Some '''')]\<rparr> = [(sampleFeed ! 4)\<lparr>title := ''''\<rparr>] \<and>
   map title (normalizeUfcEvents sampleRuntime (\<lambda>i. sampleNow)
     \<lparr>ufc_events = Some [sampleUfcEvent (Some '''')]\<rparr>) = [''''] \<and>
   map title (normalizeUfcEvents sampleRuntime (\<lambda>i. sampleNow)
     \<lparr>ufc_events = Some [sampleUfcEvent None]\<rparr>) = [''UFC Event'']"
proof -
  have c1: "normalizeUfcEvents sampleRuntime (\<lambda>i. sampleNow)
     \<lparr>ufc_events = Some [sampleUfcEvent (Some '''')]\<rparr> = [(sampleFeed ! 4)\<lparr>title := ''''\<rparr>]"
    by code_simp
  have c2: "map title (normalizeUfcEvents sampleRuntime (\<lambda>i. sampleNow)
     \<lparr>ufc_events = Some [sampleUfcEvent (Some '''')]\<rparr>) = ['''']"
    by code_simp
  have c3: "map title (normalizeUfcEvents sampleRuntime (\<lambda>i. sampleNow)
     \<lparr>ufc_events = Some [sampleUfcEvent None]\<rparr>) = [''UFC Event'']"
    by code_simp
  from c1 c2 c3 show ?thesis by (intro conjI)
qed

end
